theory Spec2Isabelle
  imports Complex_Main
begin

section \<open>Data model (frontend/src/types.ts)\<close>

text \<open>
  The seat client is a React application. This theory embeds its seat reducer, the handlers
  that feed it, and the request builders of \<^verbatim>\<open>lib/api.ts\<close>.

  JavaScript numbers appear here only as floor numbers, prices and grid coordinates that
  are compared, used as keys, added and multiplied by small constants. A finite JavaScript
  number is a rational, so \<open>number\<close> is \<open>rat\<close>; \<open>NaN\<close> and the infinities are the
  \<open>None\<close> of a \<open>number option\<close> where a conversion can produce them. Millisecond
  instants (\<^verbatim>\<open>Date.now()\<close>) are integers.
\<close>

type_synonym number = rat

datatype SeatStatus = AVAILABLE | HOLD | SOLD | BLOCKED

record SeatHoldInfo =
  client_id :: string
  expires_at :: string

text \<open>
  \<^verbatim>\<open>hold?: SeatHoldInfo | null\<close>: the code never tells an absent \<open>hold\<close> from a
  \<open>null\<close> one (it reads the field through \<^verbatim>\<open>seat.hold?.x\<close> only), so both are \<open>None\<close>.
  The field \<^verbatim>\<open>floor\<close> is \<open>floor_no\<close> here.
\<close>

record Seat =
  seat_id :: string
  floor_no :: number
  excel_row :: number
  excel_col :: number
  layout_row :: "number option"
  layout_col :: "number option"
  zone :: string
  tier :: "string option"
  price :: number
  status :: SeatStatus
  updated_at :: string
  hold :: "SeatHoldInfo option"

text \<open>\<^verbatim>\<open>AdminSeatUpdatePayload\<close>: each field may be left out (\<open>None\<close>); \<open>tier\<close> and
  \<open>price\<close> may also be \<open>null\<close> (\<open>Some None\<close>).\<close>

record AdminSeatUpdatePayload =
  payload_status :: "SeatStatus option"
  payload_tier :: "string option option"
  payload_price :: "number option option"

record AdminSeatBulkResponse =
  updated :: "Seat list"
  missing :: "string list"

record SeatsResponse =
  response_floor :: number
  seats :: "Seat list"
  generated_at :: string

record HoldResponse =
  held :: "string list"
  refreshed :: "string list"
  conflicts :: "string list"
  expire_at :: "string option"

record ReleaseResponse =
  released :: "string list"

record ConfirmResponse =
  confirmed :: "string list"
  skipped :: "string list"

text \<open>The payload of a \<^verbatim>\<open>seat_update\<close> frame, and the frame itself.\<close>

record SeatUpdatePayload =
  event_seat_id :: string
  event_from :: SeatStatus
  event_to :: SeatStatus
  event_by :: "string option"
  event_at :: string

record SeatUpdateEvent =
  event :: string
  payload :: "SeatUpdatePayload option"

text \<open>A JSON value: what \<^verbatim>\<open>JSON.stringify\<close> prints and \<^verbatim>\<open>JSON.parse\<close> reads. A request
  body is kept as the value, not as its text.\<close>

datatype json =
  JNull
| JString string
| JNumber number
| JBool bool
| JArray "json list"
| JObject "(string \<times> json) list"

section \<open>The host: built-ins of the JavaScript runtime\<close>

text \<open>
  The code calls built-ins whose results are not functions of this repository:
  \<^verbatim>\<open>Number(s)\<close> on a string, the printing of a number, the clock, the parsing of a date
  string, \<^verbatim>\<open>Date.prototype.toISOString\<close> and \<^verbatim>\<open>JSON.parse\<close>. They are parameters of
  the model: the theorems below are stated for an arbitrary host \<open>h\<close>, and the examples
  run on \<open>example_host\<close>.
  \<^item> \<open>Number_js s\<close> is \<^verbatim>\<open>Number(s)\<close> when that is finite, \<open>None\<close> when it is
    \<open>NaN\<close> or infinite (the code looks at it through \<^verbatim>\<open>Number.isFinite\<close> only).
  \<^item> \<open>String_js n\<close> is the number \<open>n\<close> printed by a template literal.
  \<^item> \<open>Date_now\<close> is the clock, in milliseconds, while one event is handled. The clock
    is read once per event here; no theorem depends on \<open>updated_at\<close>.
  \<^item> \<open>Date_parse s\<close> is the time value of \<^verbatim>\<open>new Date(s)\<close>, \<open>None\<close> for an invalid date.
  \<^item> \<open>toISOString t\<close> prints the instant \<open>t\<close>.
  \<^item> \<open>JSON_parse s\<close> is the value \<^verbatim>\<open>JSON.parse(s)\<close> returns, \<open>None\<close> when it throws.
\<close>

record host =
  Number_js :: "string \<Rightarrow> number option"
  String_js :: "number \<Rightarrow> string"
  Date_now :: int
  Date_parse :: "string \<Rightarrow> int option"
  toISOString :: "int \<Rightarrow> string"
  JSON_parse :: "string \<Rightarrow> json option"

text \<open>
  What a handler can throw: \<^verbatim>\<open>toISOString\<close> on an invalid date raises a
  \<open>RangeError\<close>; the admin handlers throw an \<open>Error\<close> when the token is missing
  (\<open>AdminTokenMissing\<close>) and rethrow a failed request with its normalised message.
\<close>

datatype error = RangeError | AdminTokenMissing | RequestFailed string

section \<open>App.tsx: the seat reducer\<close>

definition HOLD_TTL_SECONDS :: int where
  "HOLD_TTL_SECONDS = 120"

text \<open>\<^verbatim>\<open>const [floor] = seatId.split('-')\<close>: the text before the first dash
  (all of it when there is none).\<close>

definition seatIdToFloor :: "host \<Rightarrow> string \<Rightarrow> number" where
  "seatIdToFloor h seatId =
     (case Number_js h (takeWhile (\<lambda>c. c \<noteq> CHR ''-'') seatId) of
        Some parsed \<Rightarrow> parsed
      | None \<Rightarrow> 1)"

text \<open>
  \<^verbatim>\<open>Record<number, Record<string, Seat>>\<close>: a map from floors to maps from seat ids to
  seats. (Seat ids are taken not to be names of \<^verbatim>\<open>Object.prototype\<close> members.)
\<close>

type_synonym SeatState = "number \<rightharpoonup> (string \<rightharpoonup> Seat)"

text \<open>
  The reducer compares what a patch returns with the seat it was given by \<^verbatim>\<open>===\<close>,
  the identity of objects, which a value cannot show. So the result of a patch says which
  object comes back: \<open>Undefined\<close>, \<open>Same\<close> (the very object, or \<open>undefined\<close>, that was
  passed in), \<open>Fresh s\<close> (another object, with the fields \<open>s\<close>), or \<open>Throws e\<close>.
\<close>

datatype patched = Undefined | Same | Fresh Seat | Throws error

record SeatUpdate =
  seatId :: string
  patch :: "Seat option \<Rightarrow> patched"

datatype SeatAction =
  SET_SEATS number "Seat list"
| PATCH_SEATS number "SeatUpdate list"

text \<open>The \<^verbatim>\<open>for\<close> loop of \<^verbatim>\<open>PATCH_SEATS\<close>, with its two locals \<open>changed\<close> and
  \<open>nextFloorMap\<close>. Every patch reads \<open>currentFloorMap\<close>, never \<open>nextFloorMap\<close>.\<close>

fun patch_loop ::
  "(string \<rightharpoonup> Seat) \<Rightarrow> SeatUpdate list \<Rightarrow> bool \<times> (string \<rightharpoonup> Seat)
     \<Rightarrow> error + bool \<times> (string \<rightharpoonup> Seat)" where
  "patch_loop currentFloorMap [] acc = Inr acc"
| "patch_loop currentFloorMap (update # rest) (changed, nextFloorMap) =
     (case patch update (currentFloorMap (seatId update)) of
        Throws e \<Rightarrow> Inl e
      | Undefined \<Rightarrow> patch_loop currentFloorMap rest (changed, nextFloorMap)
      | Same \<Rightarrow> patch_loop currentFloorMap rest (changed, nextFloorMap)
      | Fresh next \<Rightarrow>
          patch_loop currentFloorMap rest (True, nextFloorMap(seatId update \<mapsto> next)))"

fun seatReducer :: "SeatState \<Rightarrow> SeatAction \<Rightarrow> error + SeatState" where
  "seatReducer state (SET_SEATS f seats_list) =
     Inr (state(f \<mapsto> foldl (\<lambda>m seat. m(seat_id seat \<mapsto> seat)) Map.empty seats_list))"
| "seatReducer state (PATCH_SEATS f updates) =
     (case state f of
        None \<Rightarrow> Inr state
      | Some currentFloorMap \<Rightarrow>
          (case patch_loop currentFloorMap updates (False, currentFloorMap) of
             Inl e \<Rightarrow> Inl e
           | Inr (changed, nextFloorMap) \<Rightarrow>
               if \<not> changed then Inr state else Inr (state(f \<mapsto> nextFloorMap))))"

text \<open>\<^verbatim>\<open>dispatch\<close> called several times in a row: React runs the reducer on the
  actions in the order they were dispatched. An exception ends the run.\<close>

fun dispatch_all :: "SeatState \<Rightarrow> SeatAction list \<Rightarrow> error + SeatState" where
  "dispatch_all state [] = Inr state"
| "dispatch_all state (action # rest) =
     (case seatReducer state action of
        Inl e \<Rightarrow> Inl e
      | Inr state' \<Rightarrow> dispatch_all state' rest)"

text \<open>\<^verbatim>\<open>if (expireAt) return expireAt\<close>: \<open>null\<close>, \<open>undefined\<close> and the empty string
  are falsy.\<close>

definition getExpireAtOrDefault :: "host \<Rightarrow> string option \<Rightarrow> string" where
  "getExpireAtOrDefault h expireAt =
     (case expireAt of
        Some e \<Rightarrow>
          if e \<noteq> [] then e else toISOString h (Date_now h + HOLD_TTL_SECONDS * 1000)
      | None \<Rightarrow> toISOString h (Date_now h + HOLD_TTL_SECONDS * 1000))"

text \<open>
  \<^verbatim>\<open>grouped\<close> is a \<^verbatim>\<open>Map\<close> from floors to arrays: \<^verbatim>\<open>forEach\<close> visits its entries in
  the order their keys were first inserted, so it is an association list here.
  \<open>group_push k v grouped\<close> is \<^verbatim>\<open>if (!grouped.has(k)) grouped.set(k, []);
  grouped.get(k).push(v)\<close>.
\<close>

fun group_push :: "number \<Rightarrow> 'a \<Rightarrow> (number \<times> 'a list) list \<Rightarrow> (number \<times> 'a list) list" where
  "group_push k v [] = [(k, [v])]"
| "group_push k v ((k', vs) # grouped) =
     (if k' = k then (k', vs @ [v]) # grouped else (k', vs) # group_push k v grouped)"

definition group_by :: "('a \<Rightarrow> number) \<Rightarrow> ('a \<Rightarrow> 'b) \<Rightarrow> 'a list \<Rightarrow> (number \<times> 'b list) list" where
  "group_by key item xs = foldl (\<lambda>grouped x. group_push (key x) (item x) grouped) [] xs"

text \<open>The three patches of \<^verbatim>\<open>applyHoldResult\<close>, \<^verbatim>\<open>applyRelease\<close> and
  \<^verbatim>\<open>applyConfirm\<close>. Each starts with \<^verbatim>\<open>if (!seat) return seat;\<close> and then builds a new
  object from the old one.\<close>

definition hold_patch :: "host \<Rightarrow> string \<Rightarrow> string \<Rightarrow> Seat option \<Rightarrow> patched" where
  "hold_patch h clientId expire seat_opt =
     (case seat_opt of
        None \<Rightarrow> Same
      | Some seat \<Rightarrow>
          Fresh (seat\<lparr>status := HOLD,
                       hold := Some \<lparr>client_id = clientId, expires_at = expire\<rparr>,
                       updated_at := toISOString h (Date_now h)\<rparr>))"

definition release_patch :: "host \<Rightarrow> Seat option \<Rightarrow> patched" where
  "release_patch h seat_opt =
     (case seat_opt of
        None \<Rightarrow> Same
      | Some seat \<Rightarrow>
          Fresh (seat\<lparr>status := AVAILABLE, hold := None,
                       updated_at := toISOString h (Date_now h)\<rparr>))"

definition confirm_patch :: "host \<Rightarrow> Seat option \<Rightarrow> patched" where
  "confirm_patch h seat_opt =
     (case seat_opt of
        None \<Rightarrow> Same
      | Some seat \<Rightarrow>
          Fresh (seat\<lparr>status := SOLD, hold := None,
                       updated_at := toISOString h (Date_now h)\<rparr>))"

definition applyHoldResult ::
  "host \<Rightarrow> string \<Rightarrow> string list \<Rightarrow> string option \<Rightarrow> SeatState \<Rightarrow> error + SeatState" where
  "applyHoldResult h clientId seatIds expireAt state =
     (if seatIds = [] then Inr state
      else
        let expiry = getExpireAtOrDefault h expireAt;
            grouped = group_by (seatIdToFloor h) (\<lambda>seatId. (seatId, expiry)) seatIds
        in dispatch_all state
             (map (\<lambda>(seatFloor, items).
                     PATCH_SEATS seatFloor
                       (map (\<lambda>(seatId, expire).
                               \<lparr>seatId = seatId, patch = hold_patch h clientId expire\<rparr>)
                          items))
                grouped))"

definition applyRelease :: "host \<Rightarrow> string list \<Rightarrow> SeatState \<Rightarrow> error + SeatState" where
  "applyRelease h seatIds state =
     (if seatIds = [] then Inr state
      else
        let grouped = group_by (seatIdToFloor h) (\<lambda>seatId. seatId) seatIds
        in dispatch_all state
             (map (\<lambda>(seatFloor, items).
                     PATCH_SEATS seatFloor
                       (map (\<lambda>seatId. \<lparr>seatId = seatId, patch = release_patch h\<rparr>) items))
                grouped))"

definition applyConfirm :: "host \<Rightarrow> string list \<Rightarrow> SeatState \<Rightarrow> error + SeatState" where
  "applyConfirm h seatIds state =
     (if seatIds = [] then Inr state
      else
        let grouped = group_by (seatIdToFloor h) (\<lambda>seatId. seatId) seatIds
        in dispatch_all state
             (map (\<lambda>(seatFloor, items).
                     PATCH_SEATS seatFloor
                       (map (\<lambda>seatId. \<lparr>seatId = seatId, patch = confirm_patch h\<rparr>) items))
                grouped))"

subsection \<open>The live subscription\<close>

text \<open>
  The patch of \<^verbatim>\<open>onUpdate\<close>. \<^verbatim>\<open>new Date(at).toISOString()\<close> throws a
  \<open>RangeError\<close> when \<open>at\<close> is not a date. \<^verbatim>\<open>by ?? x\<close> takes \<open>x\<close> only when \<open>by\<close> is
  missing; \<^verbatim>\<open>by === clientId && seat.hold?.expires_at\<close> asks for a non-empty expiry.
\<close>

definition seat_update_patch ::
  "host \<Rightarrow> string \<Rightarrow> SeatUpdatePayload \<Rightarrow> Seat option \<Rightarrow> patched" where
  "seat_update_patch h clientId p seat_opt =
     (case seat_opt of
        None \<Rightarrow> Same
      | Some seat \<Rightarrow>
          (case Date_parse h (event_at p) of
             None \<Rightarrow> Throws RangeError
           | Some t \<Rightarrow>
               let next = seat\<lparr>status := event_to p, updated_at := toISOString h t\<rparr>;
                   next = (if event_to p = HOLD
                     then next\<lparr>hold := Some
                       \<lparr>client_id =
                          (case event_by p of
                             Some by \<Rightarrow> by
                           | None \<Rightarrow>
                               (case hold seat of
                                  Some info \<Rightarrow> client_id info
                                | None \<Rightarrow> ''unknown'')),
                        expires_at =
                          (case hold seat of
                             Some info \<Rightarrow>
                               if event_by p = Some clientId \<and> expires_at info \<noteq> []
                               then expires_at info
                               else getExpireAtOrDefault h None
                           | None \<Rightarrow> getExpireAtOrDefault h None)\<rparr>\<rparr>
                     else next\<lparr>hold := None\<rparr>);
                   next = (if event_to p = SOLD then next\<lparr>hold := None\<rparr> else next)
               in Fresh next))"

definition onUpdate :: "host \<Rightarrow> string \<Rightarrow> SeatUpdatePayload \<Rightarrow> SeatAction" where
  "onUpdate h clientId p =
     PATCH_SEATS (seatIdToFloor h (event_seat_id p))
       [\<lparr>seatId = event_seat_id p, patch = seat_update_patch h clientId p\<rparr>]"

text \<open>\<^verbatim>\<open>socket.onmessage\<close> (lib/socket.ts), on a frame that parsed: only a
  \<^verbatim>\<open>seat_update\<close> frame with a payload reaches \<^verbatim>\<open>onUpdate\<close>.\<close>

definition socket_onmessage :: "host \<Rightarrow> string \<Rightarrow> SeatUpdateEvent \<Rightarrow> SeatState \<Rightarrow> error + SeatState" where
  "socket_onmessage h clientId message state =
     (case payload message of
        Some p \<Rightarrow>
          if event message = ''seat_update'' then seatReducer state (onUpdate h clientId p)
          else Inr state
      | None \<Rightarrow> Inr state)"

definition heldBySelf :: "string \<Rightarrow> Seat list \<Rightarrow> Seat list" where
  "heldBySelf clientId seats_list =
     filter (\<lambda>seat. status seat = HOLD \<and>
                    (case hold seat of Some info \<Rightarrow> client_id info = clientId | None \<Rightarrow> False))
       seats_list"

section \<open>lib/api.ts: the requests\<close>

text \<open>
  \<^verbatim>\<open>JSON.stringify\<close> of an object literal: a property whose value is \<open>undefined\<close>
  (\<open>None\<close>) is left out, the others are printed in the order they were written.
\<close>

definition JSON_stringify :: "(string \<times> json option) list \<Rightarrow> json" where
  "JSON_stringify props =
     JObject (concat (map (\<lambda>(k, v). case v of None \<Rightarrow> [] | Some j \<Rightarrow> [(k, j)]) props))"

definition status_json :: "SeatStatus \<Rightarrow> json" where
  "status_json s =
     (case s of
        AVAILABLE \<Rightarrow> JString ''AVAILABLE''
      | HOLD \<Rightarrow> JString ''HOLD''
      | SOLD \<Rightarrow> JString ''SOLD''
      | BLOCKED \<Rightarrow> JString ''BLOCKED'')"

text \<open>
  What \<^verbatim>\<open>fetch\<close> is called with. \<open>path\<close> is the argument of \<^verbatim>\<open>request\<close> (the
  constant \<^verbatim>\<open>API_BASE\<close> goes in front of it); \<open>http_method\<close> is the field
  \<^verbatim>\<open>method\<close>, \<open>None\<close> when \<open>init\<close> gives none. \<^verbatim>\<open>request\<close> spreads the caller's
  headers over the content type. A response that is not \<open>ok\<close> makes \<^verbatim>\<open>request\<close> throw
  an \<open>Error\<close> with the response's text: the \<open>Inl text\<close> of the outcomes below.
\<close>

record Request =
  path :: string
  http_method :: "string option"
  headers :: "string \<rightharpoonup> string"
  body :: "json option"

definition request ::
  "string \<Rightarrow> string option \<Rightarrow> (string \<rightharpoonup> string) \<Rightarrow> json option \<Rightarrow> Request" where
  "request p init_method init_headers init_body =
     \<lparr>path = p, http_method = init_method,
      headers = [''Content-Type'' \<mapsto> ''application/json''] ++ init_headers,
      body = init_body\<rparr>"

definition fetchSeats :: "host \<Rightarrow> number \<Rightarrow> Request" where
  "fetchSeats h f = request (''/api/seats?floor='' @ String_js h f) None Map.empty None"

definition holdSeats :: "string list \<Rightarrow> string \<Rightarrow> Request" where
  "holdSeats seatIds clientId =
     request ''/api/hold'' (Some ''POST'') Map.empty
       (Some (JSON_stringify
          [(''seat_ids'', Some (JArray (map JString seatIds))),
           (''client_id'', Some (JString clientId))]))"

definition releaseSeats :: "string list option \<Rightarrow> string \<Rightarrow> Request" where
  "releaseSeats seatIds clientId =
     request ''/api/release'' (Some ''POST'') Map.empty
       (Some (JSON_stringify
          [(''seat_ids'', map_option (\<lambda>ids. JArray (map JString ids)) seatIds),
           (''client_id'', Some (JString clientId))]))"

definition confirmSeats :: "string list \<Rightarrow> string \<Rightarrow> string \<Rightarrow> Request" where
  "confirmSeats seatIds clientId requestId =
     request ''/api/confirm'' (Some ''POST'') Map.empty
       (Some (JSON_stringify
          [(''seat_ids'', Some (JArray (map JString seatIds))),
           (''client_id'', Some (JString clientId)),
           (''request_id'', Some (JString requestId))]))"

definition tier_json :: "string option \<Rightarrow> json" where
  "tier_json t = (case t of None \<Rightarrow> JNull | Some s \<Rightarrow> JString s)"

definition price_json :: "number option \<Rightarrow> json" where
  "price_json p = (case p of None \<Rightarrow> JNull | Some n \<Rightarrow> JNumber n)"

definition adminUpdateSeat :: "string \<Rightarrow> AdminSeatUpdatePayload \<Rightarrow> string \<Rightarrow> Request" where
  "adminUpdateSeat sid pl adminToken =
     request (''/api/admin/seats/'' @ sid) (Some ''PATCH'')
       [''X-Admin-Token'' \<mapsto> adminToken]
       (Some (JSON_stringify
          [(''status'', map_option status_json (payload_status pl)),
           (''tier'', map_option tier_json (payload_tier pl)),
           (''price'', map_option price_json (payload_price pl))]))"

definition adminBulkUpdateSeats ::
  "string list \<Rightarrow> AdminSeatUpdatePayload \<Rightarrow> string \<Rightarrow> Request" where
  "adminBulkUpdateSeats seatIds pl adminToken =
     request ''/api/admin/seats/bulk'' (Some ''POST'')
       [''X-Admin-Token'' \<mapsto> adminToken]
       (Some (JSON_stringify
          [(''seat_ids'', Some (JArray (map JString seatIds))),
           (''status'', map_option status_json (payload_status pl)),
           (''tier'', map_option tier_json (payload_tier pl)),
           (''price'', map_option price_json (payload_price pl))]))"

section \<open>App.tsx: the handlers\<close>

text \<open>
  A handler awaits one request and then dispatches. It is modelled as a function of the
  outcome of the awaited call (\<open>Inl text\<close> when \<^verbatim>\<open>request\<close> throws, \<open>Inr response\<close>
  otherwise) and of the seat state the reducer then runs on. It returns the requests it
  issued, in order, and the seat state after its dispatches. Messages and the flags of the
  user interface (\<^verbatim>\<open>showMessage\<close>, \<^verbatim>\<open>setHolding\<close>, the admin selection) are not part
  of the seat state and are left out; the flags a handler reads are arguments. (A 204
  response makes \<^verbatim>\<open>request\<close> return \<open>null\<close>; reading a field of it throws inside the
  handler's \<^verbatim>\<open>try\<close>, which leaves the seat state as a failed request does.)
\<close>

definition handleSeatClick ::
  "host \<Rightarrow> string \<Rightarrow> bool \<Rightarrow> bool \<Rightarrow> Seat \<Rightarrow> string + ReleaseResponse \<Rightarrow> string + HoldResponse
     \<Rightarrow> SeatState \<Rightarrow> Request list \<times> (error + SeatState)" where
  "handleSeatClick h clientId adminEnabled holding seat releaseResult holdResult state =
     (if adminEnabled then ([], Inr state)
      else if holding then ([], Inr state)
      else if status seat = BLOCKED \<or> status seat = SOLD then ([], Inr state)
      else if status seat = HOLD \<and>
              (case hold seat of Some info \<Rightarrow> client_id info = clientId | None \<Rightarrow> False)
      then ([releaseSeats (Some [seat_id seat]) clientId],
            (case releaseResult of
               Inl text \<Rightarrow> Inr state
             | Inr response \<Rightarrow> applyRelease h (released response) state))
      else if status seat = AVAILABLE
      then ([holdSeats [seat_id seat] clientId],
            (case holdResult of
               Inl text \<Rightarrow> Inr state
             | Inr response \<Rightarrow>
                 if held response \<noteq> [] \<or> refreshed response \<noteq> []
                 then applyHoldResult h clientId (held response @ refreshed response)
                        (expire_at response) state
                 else Inr state))
      else ([], Inr state))"

definition handleBoxSelect ::
  "host \<Rightarrow> string \<Rightarrow> bool \<Rightarrow> string list \<Rightarrow> string + HoldResponse \<Rightarrow> SeatState
     \<Rightarrow> Request list \<times> (error + SeatState)" where
  "handleBoxSelect h clientId adminEnabled seatIds holdResult state =
     (if adminEnabled then ([], Inr state)
      else if seatIds = [] then ([], Inr state)
      else ([holdSeats seatIds clientId],
            (case holdResult of
               Inl text \<Rightarrow> Inr state
             | Inr response \<Rightarrow>
                 if held response \<noteq> [] \<or> refreshed response \<noteq> []
                 then applyHoldResult h clientId (held response @ refreshed response)
                        (expire_at response) state
                 else Inr state)))"


text \<open>
  \<^verbatim>\<open>`${clientId}-${Date.now()}`\<close>: \<^verbatim>\<open>Date.now()\<close> is an integer, and a template
  literal prints an integer below \<open>10\<^sup>2\<^sup>1\<close> in decimal, with a minus sign when negative.
\<close>

fun print_nat :: "nat \<Rightarrow> string" where
  "print_nat n =
     (if n < 10 then [''0123456789'' ! n]
      else print_nat (n div 10) @ [''0123456789'' ! (n mod 10)])"

declare print_nat.simps [simp del]

definition print_int :: "int \<Rightarrow> string" where
  "print_int i = (if i < 0 then CHR ''-'' # print_nat (nat (- i)) else print_nat (nat i))"

definition confirm_requestId :: "host \<Rightarrow> string \<Rightarrow> string" where
  "confirm_requestId h clientId = clientId @ ''-'' @ print_int (Date_now h)"

definition handleConfirm ::
  "host \<Rightarrow> string \<Rightarrow> bool \<Rightarrow> Seat list \<Rightarrow> string + ConfirmResponse \<Rightarrow> SeatState
     \<Rightarrow> Request list \<times> (error + SeatState)" where
  "handleConfirm h clientId adminEnabled seats_list confirmResult state =
     (if adminEnabled then ([], Inr state)
      else if heldBySelf clientId seats_list = [] then ([], Inr state)
      else
        let seatIds = map seat_id (heldBySelf clientId seats_list);
            requestId = confirm_requestId h clientId
        in ([confirmSeats seatIds clientId requestId],
            (case confirmResult of
               Inl text \<Rightarrow> Inr state
             | Inr response \<Rightarrow>
                 if confirmed response \<noteq> [] then applyConfirm h (confirmed response) state
                 else Inr state)))"

subsection \<open>The admin handlers\<close>

text \<open>\<^verbatim>\<open>normalizeErrorMessage\<close>: the text itself unless it parses to a string, or to an
  object (not \<open>null\<close>) with a string under \<^verbatim>\<open>detail\<close>.\<close>

definition normalizeErrorMessage :: "host \<Rightarrow> string \<Rightarrow> string" where
  "normalizeErrorMessage h raw =
     (case JSON_parse h raw of
        Some (JString parsed) \<Rightarrow> parsed
      | Some (JObject props) \<Rightarrow>
          (case map_of props ''detail'' of
             Some (JString detail) \<Rightarrow> detail
           | _ \<Rightarrow> raw)
      | _ \<Rightarrow> raw)"

text \<open>
  The admin handlers return the requests issued, what the promise settles with (\<open>Inl\<close>
  the error thrown), and the seat state (the bulk handler: what it dispatches, see
  below). The test \<^verbatim>\<open>if (!adminToken)\<close> comes before the \<^verbatim>\<open>try\<close>, so its error is
  thrown as it is.
\<close>

definition handleAdminUpdate ::
  "host \<Rightarrow> string \<Rightarrow> string \<Rightarrow> AdminSeatUpdatePayload \<Rightarrow> string + Seat \<Rightarrow> SeatState
     \<Rightarrow> Request list \<times> (error + unit) \<times> (error + SeatState)" where
  "handleAdminUpdate h adminToken sid pl updateResult state =
     (if adminToken = [] then ([], Inl AdminTokenMissing, Inr state)
      else
        (case updateResult of
           Inl text \<Rightarrow>
             ([adminUpdateSeat sid pl adminToken],
              Inl (RequestFailed (normalizeErrorMessage h text)), Inr state)
         | Inr updated_seat \<Rightarrow>
             ([adminUpdateSeat sid pl adminToken], Inr (),
              seatReducer state
                (PATCH_SEATS (floor_no updated_seat)
                   [\<lparr>seatId = seat_id updated_seat, patch = (\<lambda>_. Fresh updated_seat)\<rparr>]))))"

text \<open>\<^verbatim>\<open>floorsToRefresh\<close> is a \<^verbatim>\<open>Set\<close>: \<^verbatim>\<open>Array.from\<close> lists it in the order of first
  insertion.\<close>

definition set_add :: "'a \<Rightarrow> 'a list \<Rightarrow> 'a list" where
  "set_add v xs = (if v \<in> set xs then xs else xs @ [v])"

text \<open>
  \<^verbatim>\<open>handleAdminBulkUpdate\<close> dispatches at several moments: the patches, one after the
  other, when the response has arrived, and one \<^verbatim>\<open>SET_SEATS\<close> as each refetch completes
  (\<^verbatim>\<open>Promise.all\<close>: in any order; one that fails only shows a message). The live stream or
  the fetch of a floor can dispatch in between. So this handler returns what it
  dispatches rather than a state: the patches, and the \<^verbatim>\<open>SET_SEATS\<close> actions (listed in
  the order of \<open>floorsToRefresh\<close>). \<open>fetchResult f\<close> is the outcome of
  \<^verbatim>\<open>fetchSeats(f)\<close>.

  \<open>seatState\<close> is the seat state of the render that created the handler. The handler
  reads it after the \<^verbatim>\<open>await\<close> to tell which floors are loaded; the reducer runs on
  the state of its own moment, which is not an argument here.
\<close>

definition refresh_actions :: "(number \<Rightarrow> string + SeatsResponse) \<Rightarrow> number list \<Rightarrow> SeatAction list" where
  "refresh_actions fetchResult floors =
     concat (map (\<lambda>targetFloor.
                    case fetchResult targetFloor of
                      Inl text \<Rightarrow> []
                    | Inr refreshed_response \<Rightarrow> [SET_SEATS targetFloor (seats refreshed_response)])
               floors)"

definition handleAdminBulkUpdate ::
  "host \<Rightarrow> string \<Rightarrow> string list \<Rightarrow> AdminSeatUpdatePayload \<Rightarrow> string + AdminSeatBulkResponse
     \<Rightarrow> (number \<Rightarrow> string + SeatsResponse) \<Rightarrow> SeatState
     \<Rightarrow> Request list \<times> (error + AdminSeatBulkResponse) \<times> SeatAction list \<times> SeatAction list" where
  "handleAdminBulkUpdate h adminToken seatIds pl bulkResult fetchResult seatState =
     (if adminToken = [] then ([], Inl AdminTokenMissing, [], [])
      else
        (case bulkResult of
           Inl text \<Rightarrow>
             ([adminBulkUpdateSeats seatIds pl adminToken],
              Inl (RequestFailed (normalizeErrorMessage h text)), [], [])
         | Inr response \<Rightarrow>
             if updated response \<noteq> [] then
               let grouped = group_by floor_no (\<lambda>seat. seat) (updated response);
                   floorsToRefresh =
                     foldl (\<lambda>floors seat.
                              if seatState (floor_no seat) = None
                              then set_add (floor_no seat) floors
                              else floors)
                       [] (updated response);
                   patches =
                     map (\<lambda>(seatFloor, items).
                            PATCH_SEATS seatFloor
                              (map (\<lambda>seat. \<lparr>seatId = seat_id seat, patch = (\<lambda>_. Fresh seat)\<rparr>)
                                 items))
                       (filter (\<lambda>(seatFloor, items). seatState seatFloor \<noteq> None) grouped)
               in (adminBulkUpdateSeats seatIds pl adminToken # map (fetchSeats h) floorsToRefresh,
                   Inr response, patches, refresh_actions fetchResult floorsToRefresh)
             else ([adminBulkUpdateSeats seatIds pl adminToken], Inr response, [], [])))"

text \<open>All that a run of \<^verbatim>\<open>handleAdminBulkUpdate\<close> dispatched, in order, for the case
  that nothing else is dispatched in between.\<close>

definition bulk_dispatches ::
  "Request list \<times> (error + AdminSeatBulkResponse) \<times> SeatAction list \<times> SeatAction list
     \<Rightarrow> SeatAction list" where
  "bulk_dispatches outcome = fst (snd (snd outcome)) @ snd (snd (snd outcome))"

section \<open>components/SeatMap.tsx: what reaches the handlers\<close>

definition SEAT_SIZE :: number where
  "SEAT_SIZE = 20"

definition GAP :: number where
  "GAP = 6"

record Filters =
  tiers :: "string set"
  statuses :: "SeatStatus set"

record PositionedSeat =
  pos_seat :: Seat
  pos_x :: number
  pos_y :: number
  isVisible :: bool

record Rect =
  rect_x :: number
  rect_y :: number
  rect_width :: number
  rect_height :: number

definition normalizeRect :: "number \<times> number \<Rightarrow> number \<times> number \<Rightarrow> Rect" where
  "normalizeRect start current =
     \<lparr>rect_x = min (fst start) (fst current), rect_y = min (snd start) (snd current),
      rect_width = \<bar>fst start - fst current\<bar>, rect_height = \<bar>snd start - snd current\<bar>\<rparr>"

definition positioned :: "Filters \<Rightarrow> Seat list \<Rightarrow> PositionedSeat list" where
  "positioned filters seats_list =
     (if seats_list = [] then []
      else
        let minRow = Min (set (map excel_row seats_list));
            minCol = Min (set (map excel_col seats_list))
        in map (\<lambda>seat.
                  \<lparr>pos_seat = seat,
                   pos_x = (excel_col seat - minCol) * (SEAT_SIZE + GAP),
                   pos_y = (excel_row seat - minRow) * (SEAT_SIZE + GAP),
                   isVisible =
                     ((case tier seat of Some t \<Rightarrow> t | None \<Rightarrow> ''UNKNOWN'') \<in> tiers filters
                      \<and> status seat \<in> statuses filters)\<rparr>)
             seats_list)"

text \<open>\<^verbatim>\<open>handleUp\<close>, for a drag that started with the main button: the ids passed to
  \<^verbatim>\<open>onBoxSelect\<close>, or \<open>None\<close> when it is not called (admin mode, or nothing selected).\<close>

definition handleUp ::
  "bool \<Rightarrow> Filters \<Rightarrow> Seat list \<Rightarrow> number \<times> number \<Rightarrow> number \<times> number \<Rightarrow> string list option" where
  "handleUp adminEnabled filters seats_list start current =
     (if adminEnabled then None
      else
        let rectSelection = normalizeRect start current;
            selectedSeats =
              map (\<lambda>item. seat_id (pos_seat item))
                (filter (\<lambda>item.
                           if status (pos_seat item) \<noteq> AVAILABLE then False
                           else
                             let centerX = pos_x item + SEAT_SIZE / 2;
                                 centerY = pos_y item + SEAT_SIZE / 2
                             in centerX \<ge> rect_x rectSelection \<and>
                                centerX \<le> rect_x rectSelection + rect_width rectSelection \<and>
                                centerY \<ge> rect_y rectSelection \<and>
                                centerY \<le> rect_y rectSelection + rect_height rectSelection)
                   (filter isVisible (positioned filters seats_list)))
        in if selectedSeats \<noteq> [] then Some selectedSeats else None)"

text \<open>\<^verbatim>\<open>handleSeatSelection\<close>: whether a click on a seat reaches \<^verbatim>\<open>onSeatClick\<close>.\<close>

definition handleSeatSelection :: "bool \<Rightarrow> Seat \<Rightarrow> bool" where
  "handleSeatSelection adminEnabled seat =
     (let isBlockedOrSold = (status seat = BLOCKED \<or> status seat = SOLD);
          clickDisabled = (\<not> adminEnabled \<and> isBlockedOrSold)
      in \<not> clickDisabled)"

section \<open>Notions used in the statements\<close>

text \<open>The seat found under floor \<open>f\<close> and id \<open>s\<close> in the outcome of a transition
  (none when the transition threw).\<close>

definition seat_in :: "error + SeatState \<Rightarrow> number \<Rightarrow> string \<Rightarrow> Seat option" where
  "seat_in outcome f s =
     (case outcome of
        Inl e \<Rightarrow> None
      | Inr state \<Rightarrow> (case state f of None \<Rightarrow> None | Some floorMap \<Rightarrow> floorMap s))"

text \<open>A seat's hold is live: present, with an expiry that parses to an instant after the
  clock. \<open>hold_invariant\<close> is the invariant of the specification; \<open>hold_consistent\<close> is
  its part that does not look at the clock.\<close>

definition hold_live :: "host \<Rightarrow> Seat \<Rightarrow> bool" where
  "hold_live h seat =
     (case hold seat of
        None \<Rightarrow> False
      | Some info \<Rightarrow>
          (case Date_parse h (expires_at info) of
             None \<Rightarrow> False
           | Some t \<Rightarrow> Date_now h < t))"

definition hold_invariant :: "host \<Rightarrow> Seat \<Rightarrow> bool" where
  "hold_invariant h seat = ((status seat = HOLD) = hold_live h seat)"

definition hold_consistent :: "Seat \<Rightarrow> bool" where
  "hold_consistent seat = ((status seat = HOLD) = (hold seat \<noteq> None))"

subsection \<open>A host and a catalog for the examples\<close>

text \<open>
  \<open>example_host\<close> gives the built-ins on the arguments the examples below evaluate them
  at, where it agrees with the JavaScript runtime: \<^verbatim>\<open>Number("1")\<close> and
  \<^verbatim>\<open>Number("2")\<close>, three instants and their ISO texts. The clock stands at
  2026-01-01T00:00:00.000Z. The examples never leave these arguments.
\<close>

definition example_host :: host where
  "example_host =
     \<lparr>Number_js = (\<lambda>s. if s = ''1'' then Some 1 else if s = ''2'' then Some 2 else None),
      String_js = (\<lambda>n. if n = 1 then ''1'' else if n = 2 then ''2'' else []),
      Date_now = 1767225600000,
      Date_parse =
        (\<lambda>s. if s = ''2020-01-01T00:00:00.000Z'' then Some 1577836800000
             else if s = ''2026-01-01T00:00:00.000Z'' then Some 1767225600000
             else if s = ''2026-01-01T00:02:00.000Z'' then Some 1767225720000
             else None),
      toISOString =
        (\<lambda>t. if t = 1577836800000 then ''2020-01-01T00:00:00.000Z''
             else if t = 1767225600000 then ''2026-01-01T00:00:00.000Z''
             else if t = 1767225720000 then ''2026-01-01T00:02:00.000Z''
             else []),
      JSON_parse = (\<lambda>s. if s = ''503'' then Some (JNumber 503) else None)\<rparr>"

definition seat_A :: Seat where
  "seat_A =
     \<lparr>seat_id = ''1-1-A'', floor_no = 1, excel_row = 9, excel_col = 3,
      layout_row = Some 1, layout_col = Some 1, zone = ''main'', tier = Some ''VIP'',
      price = 680, status = AVAILABLE, updated_at = ''2020-01-01T00:00:00.000Z'',
      hold = None\<rparr>"

definition seat_B :: Seat where
  "seat_B =
     \<lparr>seat_id = ''1-1-B'', floor_no = 1, excel_row = 9, excel_col = 4,
      layout_row = Some 1, layout_col = Some 2, zone = ''main'', tier = None,
      price = 480, status = AVAILABLE, updated_at = ''2020-01-01T00:00:00.000Z'',
      hold = None\<rparr>"

text \<open>Seat A held by the client \<open>me\<close>, with an expiry that has passed; and with one
  that has not.\<close>

definition seat_A_stale :: Seat where
  "seat_A_stale =
     seat_A\<lparr>status := HOLD,
            hold := Some \<lparr>client_id = ''me'', expires_at = ''2020-01-01T00:00:00.000Z''\<rparr>\<rparr>"

definition seat_A_held :: Seat where
  "seat_A_held =
     seat_A\<lparr>status := HOLD,
            hold := Some \<lparr>client_id = ''me'', expires_at = ''2026-01-01T00:02:00.000Z''\<rparr>\<rparr>"

definition example_state :: SeatState where
  "example_state = [1 \<mapsto> [''1-1-A'' \<mapsto> seat_A, ''1-1-B'' \<mapsto> seat_B]]"

definition example_state_held :: SeatState where
  "example_state_held = [1 \<mapsto> [''1-1-A'' \<mapsto> seat_A_held, ''1-1-B'' \<mapsto> seat_B]]"

definition example_state_stale :: SeatState where
  "example_state_stale = [1 \<mapsto> [''1-1-A'' \<mapsto> seat_A_stale, ''1-1-B'' \<mapsto> seat_B]]"

text \<open>A \<^verbatim>\<open>seat_update\<close> frame for seat A: \<open>to\<close> and \<open>by\<close> as given, at the instant of
  the example clock.\<close>

definition frame_A :: "SeatStatus \<Rightarrow> SeatStatus \<Rightarrow> string option \<Rightarrow> SeatUpdateEvent" where
  "frame_A from_status to_status sender =
     \<lparr>event = ''seat_update'',
      payload = Some \<lparr>event_seat_id = ''1-1-A'', event_from = from_status, event_to = to_status,
                      event_by = sender, event_at = ''2026-01-01T00:00:00.000Z''\<rparr>\<rparr>"

definition payload_A :: "SeatStatus \<Rightarrow> SeatStatus \<Rightarrow> string option \<Rightarrow> SeatUpdatePayload" where
  "payload_A from_status to_status sender =
     \<lparr>event_seat_id = ''1-1-A'', event_from = from_status, event_to = to_status,
      event_by = sender, event_at = ''2026-01-01T00:00:00.000Z''\<rparr>"

text \<open>Two seats of floor 2, which \<open>example_state\<close> has not loaded. The id of the second
  does not start with its floor: \<^verbatim>\<open>Number("B")\<close> is \<open>NaN\<close>.\<close>

definition seat_C :: Seat where
  "seat_C =
     \<lparr>seat_id = ''2-1-A'', floor_no = 2, excel_row = 1, excel_col = 3,
      layout_row = Some 1, layout_col = Some 1, zone = ''upper'', tier = Some ''B'',
      price = 280, status = AVAILABLE, updated_at = ''2020-01-01T00:00:00.000Z'',
      hold = None\<rparr>"

definition seat_B7 :: Seat where
  "seat_B7 =
     \<lparr>seat_id = ''B-7'', floor_no = 2, excel_row = 1, excel_col = 4,
      layout_row = Some 1, layout_col = Some 2, zone = ''upper'', tier = Some ''B'',
      price = 280, status = AVAILABLE, updated_at = ''2020-01-01T00:00:00.000Z'',
      hold = None\<rparr>"


text \<open>Both floors loaded; and the same with seat A and the two seats of floor 2 held by
  the client \<open>me\<close>.\<close>

definition example_state_upper :: SeatState where
  "example_state_upper =
     [1 \<mapsto> [''1-1-A'' \<mapsto> seat_A, ''1-1-B'' \<mapsto> seat_B],
      2 \<mapsto> [''2-1-A'' \<mapsto> seat_C, ''B-7'' \<mapsto> seat_B7]]"


section \<open>The patch loop and the grouping\<close>

text \<open>The loop sets \<open>changed\<close> whenever it writes, and never clears it.\<close>

lemma patch_loop_changed:
  "patch_loop cur us (c, n) = Inr (c', n') \<Longrightarrow> (c \<longrightarrow> c') \<and> (\<not> c' \<longrightarrow> n' = n)"
  by (induction us arbitrary: c n) (auto split: patched.splits)

lemma patch_loop_lifted:
  assumes "\<And>i. patch (mk i) None = Same"
    and "\<And>i s. patch (mk i) (Some s) = Fresh (g s)"
    and "\<And>i. seatId (mk i) = key i"
  shows "patch_loop cur (map mk items) (c, n) =
     Inr (c \<or> (\<exists>i\<in>set items. cur (key i) \<noteq> None),
          \<lambda>s. if s \<in> key ` set items \<and> cur s \<noteq> None then map_option g (cur s) else n s)"
proof (induction items arbitrary: c n)
  case Nil
  then show ?case by simp
next
  case (Cons i items)
  have step: "patch_loop cur (map mk (i # items)) (c, n) =
      (case cur (key i) of
         None \<Rightarrow> patch_loop cur (map mk items) (c, n)
       | Some seat \<Rightarrow> patch_loop cur (map mk items) (True, n(key i \<mapsto> g seat)))"
    by (simp add: assms split: option.splits)
  show ?case
    unfolding step by (auto simp add: Cons.IH fun_eq_iff split: option.splits)
qed

lemma find_snoc:
  "find P (xs @ [a]) = (case find P xs of Some y \<Rightarrow> Some y | None \<Rightarrow> if P a then Some a else None)"
  by (induction xs) auto

lemma patch_loop_const:
  "patch_loop cur (map (\<lambda>seat. \<lparr>seatId = seat_id seat, patch = (\<lambda>_. Fresh seat)\<rparr>) items) (c, n) =
     Inr (c \<or> items \<noteq> [],
          \<lambda>s. case find (\<lambda>u. seat_id u = s) (rev items) of None \<Rightarrow> n s | Some u \<Rightarrow> Some u)"
proof (induction items arbitrary: c n)
  case Nil
  then show ?case by simp
next
  case (Cons a items)
  have step: "patch_loop cur
       (map (\<lambda>seat. \<lparr>seatId = seat_id seat, patch = (\<lambda>_. Fresh seat)\<rparr>) (a # items)) (c, n) =
     patch_loop cur
       (map (\<lambda>seat. \<lparr>seatId = seat_id seat, patch = (\<lambda>_. Fresh seat)\<rparr>) items)
       (True, n(seat_id a \<mapsto> a))"
    by simp
  show ?case
    unfolding step by (auto simp add: Cons.IH fun_eq_iff find_snoc split: option.splits)
qed

lemma map_of_group_push:
  "map_of (group_push k v g) k' =
     (if k' = k then Some ((case map_of g k of None \<Rightarrow> [] | Some vs \<Rightarrow> vs) @ [v]) else map_of g k')"
  by (induction g) auto

lemma keys_group_push:
  "fst ` set (group_push k v g) = insert k (fst ` set g)"
proof (induction g)
  case Nil
  then show ?case by simp
next
  case (Cons kv g)
  obtain k' vs where kv: "kv = (k', vs)" by (cases kv)
  show ?case
    using Cons.IH by (cases "k' = k") (simp_all add: kv insert_commute)
qed

lemma distinct_group_push:
  "distinct (map fst g) \<Longrightarrow> distinct (map fst (group_push k v g))"
  by (induction g) (auto simp: keys_group_push)

lemma foldl_group_push:
  "distinct (map fst g0) \<Longrightarrow>
   distinct (map fst (foldl (\<lambda>g x. group_push (key x) (item x) g) g0 xs)) \<and>
   (\<forall>k. map_of (foldl (\<lambda>g x. group_push (key x) (item x) g) g0 xs) k =
     (if map_of g0 k = None \<and> k \<notin> key ` set xs then None
      else Some ((case map_of g0 k of None \<Rightarrow> [] | Some vs \<Rightarrow> vs) @ map item (filter (\<lambda>x. key x = k) xs))))"
proof (induction xs arbitrary: g0)
  case Nil
  then show ?case by (auto split: option.splits)
next
  case (Cons x xs)
  from Cons.prems have d: "distinct (map fst (group_push (key x) (item x) g0))"
    by (rule distinct_group_push)
  show ?case
    using Cons.IH [OF d] by (auto simp: map_of_group_push split: option.splits)
qed

lemma group_by_distinct: "distinct (map fst (group_by key item xs))"
  using foldl_group_push [of "[]" key item xs] by (simp add: group_by_def)

lemma map_of_group_by:
  "map_of (group_by key item xs) k =
     (if k \<in> key ` set xs then Some (map item (filter (\<lambda>x. key x = k) xs)) else None)"
  using foldl_group_push [of "[]" key item xs] by (simp add: group_by_def)


lemma seatReducer_patch:
  assumes "\<And>cur. \<exists>c. patch_loop cur us (False, cur) = Inr (c, R cur)"
  shows "seatReducer st (PATCH_SEATS f us) =
     Inr (case st f of None \<Rightarrow> st | Some cur \<Rightarrow> st(f \<mapsto> R cur))"
proof (cases "st f")
  case None
  then show ?thesis by simp
next
  case (Some cur)
  from assms obtain c where c: "patch_loop cur us (False, cur) = Inr (c, R cur)"
    by blast
  show ?thesis
  proof (cases c)
    case True
    with c Some show ?thesis by simp
  next
    case False
    with c have "R cur = cur"
      using patch_loop_changed [of cur us False cur c "R cur"] by simp
    with c Some False show ?thesis by (simp add: map_upd_triv)
  qed
qed

lemma dispatch_groups:
  assumes "\<And>cur items. \<exists>c. patch_loop cur (mk items) (False, cur) = Inr (c, R items cur)"
    and "distinct (map fst g)"
  shows "dispatch_all st (map (\<lambda>(f, items). PATCH_SEATS f (mk items)) g) =
     Inr (\<lambda>f. map_option
                 (\<lambda>cur. case map_of g f of None \<Rightarrow> cur | Some items \<Rightarrow> R items cur) (st f))"
  using assms(2)
proof (induction g arbitrary: st)
  case Nil
  show ?case by (simp add: fun_eq_iff option.map_ident)
next
  case (Cons fi g)
  obtain f items where fi: "fi = (f, items)" by (cases fi)
  from Cons.prems fi have nf: "map_of g f = None" and d: "distinct (map fst g)"
    by (auto simp: map_of_eq_None_iff)
  have red: "seatReducer st (PATCH_SEATS f (mk items)) =
      Inr (case st f of None \<Rightarrow> st | Some cur \<Rightarrow> st(f \<mapsto> R items cur))"
    by (rule seatReducer_patch) (rule assms(1))
  have step: "dispatch_all st (map (\<lambda>(f, items). PATCH_SEATS f (mk items)) (fi # g)) =
      dispatch_all (case st f of None \<Rightarrow> st | Some cur \<Rightarrow> st(f \<mapsto> R items cur))
        (map (\<lambda>(f, items). PATCH_SEATS f (mk items)) g)"
    by (simp add: fi red del: seatReducer.simps)
  show ?case
    unfolding step Cons.IH [OF d]
    by (cases "st f") (auto simp add: fi nf fun_eq_iff)
qed

lemma group_push_map:
  "group_push k (g v) (map (\<lambda>(f, items). (f, map g items)) G) =
     map (\<lambda>(f, items). (f, map g items)) (group_push k v G)"
  by (induction G) auto

lemma foldl_group_map:
  "foldl (\<lambda>G x. group_push (key x) (g (item x)) G) (map (\<lambda>(f, items). (f, map g items)) G0) xs =
     map (\<lambda>(f, items). (f, map g items)) (foldl (\<lambda>G x. group_push (key x) (item x) G) G0 xs)"
  by (induction xs arbitrary: G0) (simp_all add: group_push_map)

lemma group_by_map:
  "group_by key (\<lambda>x. g (item x)) xs = map (\<lambda>(f, items). (f, map g items)) (group_by key item xs)"
  using foldl_group_map [of key g item "[]" xs] by (simp add: group_by_def)

lemma dispatch_lifted:
  assumes "p None = Same" and "\<And>s. p (Some s) = Fresh (g s)"
  shows "dispatch_all st
       (map (\<lambda>(f, items). PATCH_SEATS f (map (\<lambda>i. \<lparr>seatId = i, patch = p\<rparr>) items))
          (group_by (seatIdToFloor h) (\<lambda>i. i) ids)) =
     Inr (\<lambda>f. map_option
                 (\<lambda>cur s. if s \<in> set ids \<and> seatIdToFloor h s = f
                           then map_option g (cur s) else cur s) (st f))"
proof -
  have loop: "\<And>cur items. \<exists>c. patch_loop cur (map (\<lambda>i. \<lparr>seatId = i, patch = p\<rparr>) items) (False, cur) =
      Inr (c, \<lambda>s. if s \<in> set items then map_option g (cur s) else cur s)"
  proof -
    fix cur items
    have "patch_loop cur (map (\<lambda>i. \<lparr>seatId = i, patch = p\<rparr>) items) (False, cur) =
        Inr (False \<or> (\<exists>i\<in>set items. cur ((\<lambda>i. i) i) \<noteq> None),
             \<lambda>s. if s \<in> (\<lambda>i. i) ` set items \<and> cur s \<noteq> None then map_option g (cur s) else cur s)"
      by (rule patch_loop_lifted) (simp_all add: assms)
    moreover have "(\<lambda>s. if s \<in> (\<lambda>i. i) ` set items \<and> cur s \<noteq> None then map_option g (cur s) else cur s)
        = (\<lambda>s. if s \<in> set items then map_option g (cur s) else cur s)"
      by (auto simp: fun_eq_iff)
    ultimately show "\<exists>c. patch_loop cur (map (\<lambda>i. \<lparr>seatId = i, patch = p\<rparr>) items) (False, cur) =
        Inr (c, \<lambda>s. if s \<in> set items then map_option g (cur s) else cur s)"
      by simp
  qed
  show ?thesis
    unfolding dispatch_groups [of "\<lambda>items. map (\<lambda>i. \<lparr>seatId = i, patch = p\<rparr>) items"
        "\<lambda>items cur s. if s \<in> set items then map_option g (cur s) else cur s", OF loop group_by_distinct]
    by (auto simp: fun_eq_iff map_of_group_by option.map_comp intro!: option.map_cong)
qed


lemma applyRelease_eq:
  "applyRelease h ids st =
     Inr (\<lambda>f. map_option
                 (\<lambda>cur s. if s \<in> set ids \<and> seatIdToFloor h s = f
                           then map_option (\<lambda>seat. seat\<lparr>status := AVAILABLE, hold := None,
                                  updated_at := toISOString h (Date_now h)\<rparr>) (cur s)
                           else cur s) (st f))"
proof (cases "ids = []")
  case True
  then show ?thesis by (simp add: applyRelease_def fun_eq_iff option.map_ident)
next
  case False
  then show ?thesis
    unfolding applyRelease_def Let_def
    by (simp add: dispatch_lifted [where g = "\<lambda>seat. seat\<lparr>status := AVAILABLE, hold := None,
                                  updated_at := toISOString h (Date_now h)\<rparr>"] release_patch_def)
qed

lemma applyConfirm_eq:
  "applyConfirm h ids st =
     Inr (\<lambda>f. map_option
                 (\<lambda>cur s. if s \<in> set ids \<and> seatIdToFloor h s = f
                           then map_option (\<lambda>seat. seat\<lparr>status := SOLD, hold := None,
                                  updated_at := toISOString h (Date_now h)\<rparr>) (cur s)
                           else cur s) (st f))"
proof (cases "ids = []")
  case True
  then show ?thesis by (simp add: applyConfirm_def fun_eq_iff option.map_ident)
next
  case False
  then show ?thesis
    unfolding applyConfirm_def Let_def
    by (simp add: dispatch_lifted [where g = "\<lambda>seat. seat\<lparr>status := SOLD, hold := None,
                                  updated_at := toISOString h (Date_now h)\<rparr>"] confirm_patch_def)
qed

lemma applyHoldResult_eq:
  "applyHoldResult h clientId ids expireAt st =
     Inr (\<lambda>f. map_option
                 (\<lambda>cur s. if s \<in> set ids \<and> seatIdToFloor h s = f
                           then map_option (\<lambda>seat. seat\<lparr>status := HOLD,
                                  hold := Some \<lparr>client_id = clientId,
                                              expires_at = getExpireAtOrDefault h expireAt\<rparr>,
                                  updated_at := toISOString h (Date_now h)\<rparr>) (cur s)
                           else cur s) (st f))"
proof (cases "ids = []")
  case True
  then show ?thesis by (simp add: applyHoldResult_def fun_eq_iff option.map_ident)
next
  case False
  have g: "group_by (seatIdToFloor h) (\<lambda>i. (i, getExpireAtOrDefault h expireAt)) ids =
      map (\<lambda>(f, items). (f, map (\<lambda>i. (i, getExpireAtOrDefault h expireAt)) items))
        (group_by (seatIdToFloor h) (\<lambda>i. i) ids)"
    by (rule group_by_map)
  from False show ?thesis
    unfolding applyHoldResult_def Let_def g
    by (simp add: comp_def case_prod_unfold
        dispatch_lifted [where g = "\<lambda>seat. seat\<lparr>status := HOLD,
                                  hold := Some \<lparr>client_id = clientId,
                                              expires_at = getExpireAtOrDefault h expireAt\<rparr>,
                                  updated_at := toISOString h (Date_now h)\<rparr>", unfolded case_prod_unfold] hold_patch_def)
qed

section \<open>The reducer leaves alone what it does not patch\<close>

lemma patch_loop_noop:
  "\<forall>u\<in>set us. patch u (cur (seatId u)) = Undefined \<or> patch u (cur (seatId u)) = Same
   \<Longrightarrow> patch_loop cur us acc = Inr acc"
  by (induction us) (cases acc; auto)+

lemma seatReducer_other_floor:
  "seatReducer state action = Inr state' \<Longrightarrow>
   (case action of SET_SEATS f xs \<Rightarrow> f | PATCH_SEATS f us \<Rightarrow> f) \<noteq> g \<Longrightarrow> state' g = state g"
  by (cases action) (auto split: option.splits sum.splits if_splits)

text \<open>
  Claim C10. A \<^verbatim>\<open>PATCH_SEATS\<close> action whose floor has no loaded seat map, or all of
  whose patches return \<open>undefined\<close> or the seat they were given, makes the reducer return
  the state it was given: the loop ends with \<open>changed\<close> still false, so the branch
  \<^verbatim>\<open>return state\<close> is the one taken. And a \<^verbatim>\<open>SET_SEATS\<close> or \<^verbatim>\<open>PATCH_SEATS\<close> action
  for floor \<open>f\<close> leaves the seat map of every other floor as it was.
\<close>

theorem seatReducer_unchanged_and_frame:
  "(state f = None \<longrightarrow> seatReducer state (PATCH_SEATS f updates) = Inr state) \<and>
   (\<forall>cur. state f = Some cur \<and>
      (\<forall>u\<in>set updates. patch u (cur (seatId u)) = Undefined \<or> patch u (cur (seatId u)) = Same)
      \<longrightarrow> patch_loop cur updates (False, cur) = Inr (False, cur) \<and>
          seatReducer state (PATCH_SEATS f updates) = Inr state) \<and>
   (\<exists>state'. seatReducer state (SET_SEATS f seats_list) = Inr state' \<and>
      (\<forall>g. g \<noteq> f \<longrightarrow> state' g = state g)) \<and>
   (\<forall>state'. seatReducer state (PATCH_SEATS f updates) = Inr state'
      \<longrightarrow> (\<forall>g. g \<noteq> f \<longrightarrow> state' g = state g))"
proof (intro conjI allI impI)
  assume "state f = None"
  then show "seatReducer state (PATCH_SEATS f updates) = Inr state" by simp
next
  fix cur
  assume a: "state f = Some cur \<and>
      (\<forall>u\<in>set updates. patch u (cur (seatId u)) = Undefined \<or> patch u (cur (seatId u)) = Same)"
  then show l: "patch_loop cur updates (False, cur) = Inr (False, cur)"
    by (simp add: patch_loop_noop)
  with a show "seatReducer state (PATCH_SEATS f updates) = Inr state" by simp
next
  show "\<exists>state'. seatReducer state (SET_SEATS f seats_list) = Inr state' \<and>
      (\<forall>g. g \<noteq> f \<longrightarrow> state' g = state g)"
    by simp
next
  fix state' g
  assume "seatReducer state (PATCH_SEATS f updates) = Inr state'" and "g \<noteq> f"
  then show "state' g = state g"
    using seatReducer_other_floor [of state "PATCH_SEATS f updates" state' g] by simp
qed

theorem seatReducer_unchanged_and_frame_witness:
  "seatReducer example_state
     (PATCH_SEATS 2 [\<lparr>seatId = ''2-1-A'', patch = release_patch example_host\<rparr>]) = Inr example_state \<and>
   seatReducer example_state
     (PATCH_SEATS 1 [\<lparr>seatId = ''1-9-Z'', patch = release_patch example_host\<rparr>,
                     \<lparr>seatId = ''1-1-A'', patch = (\<lambda>seat. Undefined)\<rparr>]) = Inr example_state \<and>
   (\<exists>state'. seatReducer example_state (SET_SEATS 2 [seat_A]) = Inr state' \<and>
      state' 1 = example_state 1) \<and>
   (\<exists>state'. seatReducer example_state
       (PATCH_SEATS 1 [\<lparr>seatId = ''1-1-A'', patch = release_patch example_host\<rparr>]) = Inr state' \<and>
      state' 2 = example_state 2)"
proof -
  let ?cur = "[''1-1-A'' \<mapsto> seat_A, ''1-1-B'' \<mapsto> seat_B]"
  let ?noop = "[\<lparr>seatId = ''1-9-Z'', patch = release_patch example_host\<rparr>,
                \<lparr>seatId = ''1-1-A'', patch = (\<lambda>seat. Undefined)\<rparr>]"
  let ?rel = "[\<lparr>seatId = ''1-1-A'', patch = release_patch example_host\<rparr>]"
  have unloaded: "example_state 2 = None"
    by (simp add: example_state_def)
  have loaded: "example_state 1 = Some ?cur"
    by (simp add: example_state_def)
  have noop: "\<forall>u\<in>set ?noop. patch u (?cur (seatId u)) = Undefined \<or> patch u (?cur (seatId u)) = Same"
    by (simp add: release_patch_def)
  have one: "seatReducer example_state
     (PATCH_SEATS 2 [\<lparr>seatId = ''2-1-A'', patch = release_patch example_host\<rparr>]) = Inr example_state"
    using seatReducer_unchanged_and_frame
      [of example_state 2 "[\<lparr>seatId = ''2-1-A'', patch = release_patch example_host\<rparr>]" "[]"]
      unloaded by blast
  have two: "seatReducer example_state (PATCH_SEATS 1 ?noop) = Inr example_state"
    using seatReducer_unchanged_and_frame [of example_state 1 ?noop "[]"] loaded noop by blast
  have three: "\<exists>state'. seatReducer example_state (SET_SEATS 2 [seat_A]) = Inr state' \<and>
      state' 1 = example_state 1"
    using seatReducer_unchanged_and_frame [of example_state 2 "[]" "[seat_A]"] by fastforce
  obtain state' where run: "seatReducer example_state (PATCH_SEATS 1 ?rel) = Inr state'"
    by (simp add: example_state_def release_patch_def)
  have four: "\<exists>state'. seatReducer example_state (PATCH_SEATS 1 ?rel) = Inr state' \<and>
      state' 2 = example_state 2"
    using seatReducer_unchanged_and_frame [of example_state 1 ?rel "[]"] run by fastforce
  from one two three four show ?thesis by blast
qed

section \<open>Hold and refresh\<close>

lemma seat_in_applyHoldResult:
  assumes "state f = Some floorMap"
  shows "seat_in (applyHoldResult h clientId ids expireAt state) f s =
     (if s \<in> set ids \<and> seatIdToFloor h s = f
      then map_option
             (\<lambda>seat. seat\<lparr>status := HOLD,
                           hold := Some \<lparr>client_id = clientId,
                                        expires_at = getExpireAtOrDefault h expireAt\<rparr>,
                           updated_at := toISOString h (Date_now h)\<rparr>)
             (floorMap s)
      else floorMap s)"
  using assms by (simp add: applyHoldResult_eq seat_in_def)

text \<open>
  Claim C2, as stated, fails: a response whose \<open>expire_at\<close> is \<open>null\<close> makes the client
  record an expiry all the same, the one it computes from its own clock and
  \<open>HOLD_TTL_SECONDS\<close>. Here the clock stands at 2026-01-01T00:00:00.000Z and the seat is
  recorded as held until 00:02:00.
\<close>

theorem hold_expiry_from_response_counterexample:
  "expire_at \<lparr>held = [''1-1-A''], refreshed = [], conflicts = [], expire_at = None\<rparr> = None \<and>
   map_option hold
     (seat_in
        (snd (handleSeatClick example_host ''me'' False False seat_A (Inr \<lparr>released = []\<rparr>)
                (Inr \<lparr>held = [''1-1-A''], refreshed = [], conflicts = [], expire_at = None\<rparr>)
                example_state))
        1 ''1-1-A'') =
     Some (Some \<lparr>client_id = ''me'', expires_at = ''2026-01-01T00:02:00.000Z''\<rparr>) \<and>
   toISOString example_host (Date_now example_host + HOLD_TTL_SECONDS * 1000) =
     ''2026-01-01T00:02:00.000Z''"
  by (simp add: handleSeatClick_def applyHoldResult_def Let_def group_by_def seatIdToFloor_def
      example_host_def example_state_def seat_in_def hold_patch_def getExpireAtOrDefault_def
      HOLD_TTL_SECONDS_def seat_A_def seat_B_def)

text \<open>
  Claim C2, amended. For every hold or refresh response the client processes, the expiry
  recorded on a held or refreshed seat is the response's \<open>expire_at\<close> when that is a
  non-empty string; when it is \<open>null\<close> (or empty) the client records its own estimate,
  the ISO text of its clock plus \<open>HOLD_TTL_SECONDS\<close> (120 s).
\<close>

theorem hold_expiry_recorded:
  assumes "s \<in> set (held response) \<union> set (refreshed response)"
    and "state (seatIdToFloor h s) = Some floorMap"
    and "floorMap s = Some seat"
  shows "\<exists>seat'.
      seat_in (applyHoldResult h clientId (held response @ refreshed response)
                 (expire_at response) state) (seatIdToFloor h s) s = Some seat' \<and>
      hold seat' =
        Some \<lparr>client_id = clientId,
              expires_at =
                (case expire_at response of
                   Some e \<Rightarrow> if e \<noteq> [] then e else toISOString h (Date_now h + 120 * 1000)
                 | None \<Rightarrow> toISOString h (Date_now h + 120 * 1000))\<rparr>"
  using assms
  by (auto simp add: seat_in_applyHoldResult getExpireAtOrDefault_def HOLD_TTL_SECONDS_def
      split: option.splits)

theorem hold_expiry_recorded_witness:
  "''1-1-A'' \<in> set (held \<lparr>held = [''1-1-A''], refreshed = [], conflicts = [],
                            expire_at = Some ''2026-01-01T00:02:00.000Z''\<rparr>) \<and>
   example_state (seatIdToFloor example_host ''1-1-A'') =
     Some [''1-1-A'' \<mapsto> seat_A, ''1-1-B'' \<mapsto> seat_B] \<and>
   (\<exists>seat'.
      seat_in (applyHoldResult example_host ''me'' [''1-1-A'']
                 (Some ''2026-01-01T00:02:00.000Z'') example_state) 1 ''1-1-A'' = Some seat' \<and>
      hold seat' = Some \<lparr>client_id = ''me'', expires_at = ''2026-01-01T00:02:00.000Z''\<rparr>)"
proof -
  let ?r = "\<lparr>held = [''1-1-A''], refreshed = [], conflicts = [],
             expire_at = Some ''2026-01-01T00:02:00.000Z''\<rparr>"
  have fl: "seatIdToFloor example_host ''1-1-A'' = 1"
    by (simp add: seatIdToFloor_def example_host_def)
  have a: "''1-1-A'' \<in> set (held ?r) \<union> set (refreshed ?r)"
    by simp
  have b: "example_state (seatIdToFloor example_host ''1-1-A'') =
      Some [''1-1-A'' \<mapsto> seat_A, ''1-1-B'' \<mapsto> seat_B]"
    by (simp add: fl example_state_def)
  have c: "[''1-1-A'' \<mapsto> seat_A, ''1-1-B'' \<mapsto> seat_B] ''1-1-A'' = Some seat_A"
    by simp
  from hold_expiry_recorded [where s = "''1-1-A''" and response = ?r and state = example_state
      and h = example_host and floorMap = "[''1-1-A'' \<mapsto> seat_A, ''1-1-B'' \<mapsto> seat_B]"
      and seat = seat_A and clientId = "''me''"] a b c
  show ?thesis
    by (simp add: fl)
qed


section \<open>Status and hold\<close>

lemma seat_update_patch_Fresh:
  "seat_update_patch h clientId p (Some seat) = Fresh next_seat \<Longrightarrow>
   status next_seat = event_to p \<and> hold_consistent next_seat \<and>
   (\<exists>t. Date_parse h (event_at p) = Some t)"
  by (auto simp add: seat_update_patch_def Let_def hold_consistent_def split: option.splits if_splits)

lemma seat_update_patch_cases:
  "seat_update_patch h clientId p (Some seat) = Throws RangeError \<and> Date_parse h (event_at p) = None \<or>
   (\<exists>next_seat. seat_update_patch h clientId p (Some seat) = Fresh next_seat)"
  by (auto simp add: seat_update_patch_def Let_def split: option.splits)

lemma onUpdate_result:
  "seatReducer state (onUpdate h clientId p) =
     (case state (seatIdToFloor h (event_seat_id p)) of
        None \<Rightarrow> Inr state
      | Some cur \<Rightarrow>
          (case cur (event_seat_id p) of
             None \<Rightarrow> Inr state
           | Some seat \<Rightarrow>
               (case seat_update_patch h clientId p (Some seat) of
                  Fresh next_seat \<Rightarrow>
                    Inr (state(seatIdToFloor h (event_seat_id p) \<mapsto>
                                 cur(event_seat_id p \<mapsto> next_seat)))
                | Throws e \<Rightarrow> Inl e
                | _ \<Rightarrow> Inr state)))"
proof -
  have none: "seat_update_patch h clientId p None = Same"
    by (simp add: seat_update_patch_def)
  show ?thesis
    by (auto simp add: onUpdate_def none split: option.splits patched.splits)
qed

lemma socket_onmessage_seat:
  assumes "socket_onmessage h clientId message state = Inr state'"
    and "state' f = Some floorMap'" and "floorMap' s = Some seat'"
  shows "\<exists>floorMap seat. state f = Some floorMap \<and> floorMap s = Some seat \<and>
      (seat' = seat \<or> hold_consistent seat')"
proof (cases "payload message")
  case None
  with assms show ?thesis by (simp add: socket_onmessage_def)
next
  case (Some p)
  show ?thesis
  proof (cases "event message = ''seat_update''")
    case False
    with Some assms show ?thesis by (simp add: socket_onmessage_def)
  next
    case True
    with Some assms(1) have run: "seatReducer state (onUpdate h clientId p) = Inr state'"
      by (simp add: socket_onmessage_def)
    show ?thesis
      using run assms(2,3) seat_update_patch_Fresh [of h clientId p]
      unfolding onUpdate_result
      by (auto split: option.splits patched.splits if_splits)
  qed
qed

lemma applyHoldResult_seat:
  assumes "applyHoldResult h clientId ids expireAt state = Inr state'"
    and "state' f = Some floorMap'" and "floorMap' s = Some seat'"
  shows "\<exists>floorMap seat. state f = Some floorMap \<and> floorMap s = Some seat \<and>
      (seat' = seat \<or> hold_consistent seat')"
  using assms unfolding applyHoldResult_eq
  by (auto simp add: hold_consistent_def split: if_splits)

lemma applyRelease_seat:
  assumes "applyRelease h ids state = Inr state'"
    and "state' f = Some floorMap'" and "floorMap' s = Some seat'"
  shows "\<exists>floorMap seat. state f = Some floorMap \<and> floorMap s = Some seat \<and>
      (seat' = seat \<or> hold_consistent seat')"
  using assms unfolding applyRelease_eq
  by (auto simp add: hold_consistent_def split: if_splits)


text \<open>
  Claim C1, as stated, fails on the expiry. The client never compares an expiry with the
  clock. With the clock at 2026-01-01T00:00:00.000Z:
  \<^item> a catalog that satisfies the invariant, and a hold result whose \<open>expire_at\<close> is
    2020-01-01T00:00:00.000Z: the seat becomes \<open>HOLD\<close> with that expiry, as received;
  \<^item> a seat the client holds with an expiry that has passed, and a \<^verbatim>\<open>seat_update\<close>
    event to \<open>HOLD\<close> by the same client: the patch keeps the old expiry.
  In both the seat ends \<open>HOLD\<close> with a hold whose expiry is not in the future.
\<close>

theorem hold_invariant_counterexample:
  "map_option (hold_invariant example_host) (seat_in (Inr example_state) 1 ''1-1-A'') = Some True \<and>
   map_option (hold_invariant example_host) (seat_in (Inr example_state) 1 ''1-1-B'') = Some True \<and>
   map_option status
     (seat_in (applyHoldResult example_host ''me'' [''1-1-A'']
                 (Some ''2020-01-01T00:00:00.000Z'') example_state) 1 ''1-1-A'') = Some HOLD \<and>
   map_option (hold_invariant example_host)
     (seat_in (applyHoldResult example_host ''me'' [''1-1-A'']
                 (Some ''2020-01-01T00:00:00.000Z'') example_state) 1 ''1-1-A'') = Some False \<and>
   map_option status
     (seat_in (socket_onmessage example_host ''me'' (frame_A AVAILABLE HOLD (Some ''me''))
                 example_state_stale) 1 ''1-1-A'') = Some HOLD \<and>
   map_option (hold_invariant example_host)
     (seat_in (socket_onmessage example_host ''me'' (frame_A AVAILABLE HOLD (Some ''me''))
                 example_state_stale) 1 ''1-1-A'') = Some False"
  by (simp add: applyHoldResult_def socket_onmessage_def onUpdate_def seat_update_patch_def
      frame_A_def Let_def group_by_def seatIdToFloor_def example_host_def example_state_def
      example_state_stale_def seat_in_def hold_patch_def getExpireAtOrDefault_def
      hold_invariant_def hold_live_def seat_A_def seat_B_def seat_A_stale_def)

text \<open>
  Claim C1, amended. After a \<^verbatim>\<open>seat_update\<close> event, a hold or refresh result
  (\<^verbatim>\<open>applyHoldResult\<close>) or a release result (\<^verbatim>\<open>applyRelease\<close>), every seat of the
  catalog was in the catalog before, under the same floor and id, and either is unchanged
  or has status \<open>HOLD\<close> exactly when its hold is present and non-null. So if every seat
  had that property before, every seat has it after. (The expiry is not compared with the
  clock.)
\<close>

theorem hold_consistent_preserved:
  assumes "transition \<in> {socket_onmessage h clientId message,
                          applyHoldResult h clientId seatIds expireAt,
                          applyRelease h releasedIds}"
    and "transition state = Inr state'"
    and "state' f = Some floorMap'"
    and "floorMap' s = Some seat'"
  shows "(\<exists>floorMap seat. state f = Some floorMap \<and> floorMap s = Some seat \<and>
            (seat' = seat \<or> hold_consistent seat')) \<and>
         ((\<forall>g floorMap t seat. state g = Some floorMap \<and> floorMap t = Some seat
              \<longrightarrow> hold_consistent seat)
            \<longrightarrow> hold_consistent seat')"
proof -
  have step: "\<exists>floorMap seat. state f = Some floorMap \<and> floorMap s = Some seat \<and>
            (seat' = seat \<or> hold_consistent seat')"
    using assms socket_onmessage_seat [of h clientId message state state' f floorMap' s seat']
      applyHoldResult_seat [of h clientId seatIds expireAt state state' f floorMap' s seat']
      applyRelease_seat [of h releasedIds state state' f floorMap' s seat']
    by blast
  then show ?thesis by blast
qed

theorem hold_consistent_preserved_witness:
  "seat_in (applyHoldResult example_host ''me'' [''1-1-A'']
              (Some ''2026-01-01T00:02:00.000Z'') example_state) 1 ''1-1-A'' =
     Some (seat_A_held\<lparr>updated_at := ''2026-01-01T00:00:00.000Z''\<rparr>) \<and>
   example_state 1 = Some [''1-1-A'' \<mapsto> seat_A, ''1-1-B'' \<mapsto> seat_B] \<and>
   seat_A_held\<lparr>updated_at := ''2026-01-01T00:00:00.000Z''\<rparr> \<noteq> seat_A \<and>
   hold_consistent (seat_A_held\<lparr>updated_at := ''2026-01-01T00:00:00.000Z''\<rparr>)"
proof -
  let ?T = "applyHoldResult example_host ''me'' [''1-1-A''] (Some ''2026-01-01T00:02:00.000Z'')"
  let ?next = "seat_A_held\<lparr>updated_at := ''2026-01-01T00:00:00.000Z''\<rparr>"
  have ev: "seat_in (?T example_state) 1 ''1-1-A'' = Some ?next"
    by (simp add: applyHoldResult_def Let_def group_by_def seatIdToFloor_def example_host_def
        example_state_def seat_in_def hold_patch_def getExpireAtOrDefault_def seat_A_def
        seat_B_def seat_A_held_def)
  then obtain state' floorMap' where run: "?T example_state = Inr state'"
    and fm: "state' 1 = Some floorMap'" and seat: "floorMap' ''1-1-A'' = Some ?next"
    by (auto simp add: seat_in_def split: sum.splits option.splits)
  have before: "example_state 1 = Some [''1-1-A'' \<mapsto> seat_A, ''1-1-B'' \<mapsto> seat_B]"
    by (simp add: example_state_def)
  have differ: "?next \<noteq> seat_A"
    by (simp add: seat_A_held_def seat_A_def)
  have mem: "?T \<in> {socket_onmessage example_host ''me'' (frame_A AVAILABLE HOLD None), ?T,
                    applyRelease example_host []}"
    by simp
  from hold_consistent_preserved [OF mem run fm seat] before differ
  have "hold_consistent ?next"
    by auto
  with ev before differ show ?thesis by simp
qed

section \<open>The snapshot and the live stream\<close>

lemma seat_update_patch_parsed:
  "Date_parse h (event_at p) = Some t \<Longrightarrow>
   \<exists>next_seat. seat_update_patch h clientId p (Some seat) = Fresh next_seat \<and>
     status next_seat = event_to p"
  by (simp add: seat_update_patch_def Let_def)

lemma set_seats_lookup:
  "(foldl (\<lambda>m seat. m(seat_id seat \<mapsto> seat)) m0 xs s = None) =
     (m0 s = None \<and> s \<notin> seat_id ` set xs)"
  by (induction xs arbitrary: m0) auto

text \<open>
  Claim C3, as stated, fails. On a client that has loaded nothing, a \<^verbatim>\<open>seat_update\<close>
  event that says seat A went from \<open>AVAILABLE\<close> to \<open>SOLD\<close> is dropped by the reducer (its
  floor has no map yet); the snapshot of floor 1 that was taken before that transition
  then arrives and is installed, and seat A is \<open>AVAILABLE\<close> in the client's state: the
  transition was missed by the live handler and is absent from the snapshot. In the other
  order the same two arrivals leave seat A \<open>SOLD\<close>.
\<close>

theorem snapshot_race_counterexample:
  "event_to (payload_A AVAILABLE SOLD (Some ''other'')) = SOLD \<and>
   seatReducer Map.empty (onUpdate example_host ''me'' (payload_A AVAILABLE SOLD (Some ''other''))) =
     Inr Map.empty \<and>
   map_option status
     (seat_in (dispatch_all Map.empty
                 [onUpdate example_host ''me'' (payload_A AVAILABLE SOLD (Some ''other'')),
                  SET_SEATS 1 [seat_A, seat_B]]) 1 ''1-1-A'') = Some AVAILABLE \<and>
   map_option status
     (seat_in (dispatch_all Map.empty
                 [SET_SEATS 1 [seat_A, seat_B],
                  onUpdate example_host ''me'' (payload_A AVAILABLE SOLD (Some ''other''))])
        1 ''1-1-A'') = Some SOLD"
  by (simp add: onUpdate_def seat_update_patch_def payload_A_def Let_def seatIdToFloor_def
      example_host_def seat_in_def seat_A_def seat_B_def)

text \<open>
  Claim C3, amended. Nothing orders the fetch of a floor and the live stream. A
  \<^verbatim>\<open>seat_update\<close> event that arrives while its floor has no installed snapshot is
  dropped; \<^verbatim>\<open>SET_SEATS\<close> installs the fetched snapshot as the whole map of its floor,
  whatever events came before it; and an event that arrives after the \<^verbatim>\<open>SET_SEATS\<close> of
  its floor, with a valid date and for a seat of the snapshot, sets that seat's status to
  the event's \<open>to\<close>. So a transition shows in the client's state when the snapshot has it
  or when its event arrives after the snapshot is installed.
\<close>

theorem snapshot_and_live_updates:
  "(state (seatIdToFloor h (event_seat_id p)) = None \<longrightarrow>
      seatReducer state (onUpdate h clientId p) = Inr state) \<and>
   (\<forall>state1. seatReducer state (onUpdate h clientId p) = Inr state1 \<longrightarrow>
      seatReducer state1 (SET_SEATS (seatIdToFloor h (event_seat_id p)) snapshot) =
      seatReducer state (SET_SEATS (seatIdToFloor h (event_seat_id p)) snapshot)) \<and>
   (\<forall>t. event_seat_id p \<in> seat_id ` set snapshot \<and> Date_parse h (event_at p) = Some t \<longrightarrow>
      map_option status
        (seat_in (dispatch_all state
                    [SET_SEATS (seatIdToFloor h (event_seat_id p)) snapshot,
                     onUpdate h clientId p])
           (seatIdToFloor h (event_seat_id p)) (event_seat_id p)) = Some (event_to p))"
proof (intro conjI allI impI)
  assume "state (seatIdToFloor h (event_seat_id p)) = None"
  then show "seatReducer state (onUpdate h clientId p) = Inr state"
    by (simp add: onUpdate_def)
next
  fix state1
  assume "seatReducer state (onUpdate h clientId p) = Inr state1"
  then have "state1 = state \<or>
      (\<exists>m. state1 = state(seatIdToFloor h (event_seat_id p) \<mapsto> m))"
    unfolding onUpdate_result by (auto split: option.splits patched.splits)
  then show "seatReducer state1 (SET_SEATS (seatIdToFloor h (event_seat_id p)) snapshot) =
      seatReducer state (SET_SEATS (seatIdToFloor h (event_seat_id p)) snapshot)"
    by auto
next
  fix t
  let ?f = "seatIdToFloor h (event_seat_id p)"
  let ?m = "foldl (\<lambda>m seat. m(seat_id seat \<mapsto> seat)) Map.empty snapshot"
  assume a: "event_seat_id p \<in> seat_id ` set snapshot \<and> Date_parse h (event_at p) = Some t"
  then have "?m (event_seat_id p) \<noteq> None"
    by (simp add: set_seats_lookup)
  then obtain seat where seat: "?m (event_seat_id p) = Some seat"
    by blast
  from a obtain next_seat where
    next_seat: "seat_update_patch h clientId p (Some seat) = Fresh next_seat"
    and st: "status next_seat = event_to p"
    using seat_update_patch_parsed [of h p t clientId seat] by blast
  have "dispatch_all state [SET_SEATS ?f snapshot, onUpdate h clientId p] =
      seatReducer (state(?f \<mapsto> ?m)) (onUpdate h clientId p)"
    by (simp split: sum.splits)
  also have "\<dots> = Inr ((state(?f \<mapsto> ?m))(?f \<mapsto> ?m(event_seat_id p \<mapsto> next_seat)))"
    unfolding onUpdate_result using seat next_seat by simp
  finally show "map_option status
        (seat_in (dispatch_all state [SET_SEATS ?f snapshot, onUpdate h clientId p])
           ?f (event_seat_id p)) = Some (event_to p)"
    by (simp add: seat_in_def st)
qed

theorem snapshot_and_live_updates_witness:
  "seatReducer Map.empty (onUpdate example_host ''me'' (payload_A AVAILABLE SOLD (Some ''other''))) =
     Inr Map.empty \<and>
   (\<exists>state1. seatReducer example_state
        (onUpdate example_host ''me'' (payload_A AVAILABLE SOLD (Some ''other''))) = Inr state1 \<and>
      seatReducer state1 (SET_SEATS 1 [seat_A, seat_B]) =
      seatReducer example_state (SET_SEATS 1 [seat_A, seat_B])) \<and>
   map_option status
     (seat_in (dispatch_all Map.empty
                 [SET_SEATS 1 [seat_A, seat_B],
                  onUpdate example_host ''me'' (payload_A AVAILABLE SOLD (Some ''other''))])
        1 ''1-1-A'') = Some SOLD"
proof -
  let ?p = "payload_A AVAILABLE SOLD (Some ''other'')"
  have fl: "seatIdToFloor example_host (event_seat_id ?p) = 1"
    by (simp add: seatIdToFloor_def example_host_def payload_A_def)
  have sid: "event_seat_id ?p = ''1-1-A''"
    by (simp add: payload_A_def)
  have unloaded: "Map.empty (seatIdToFloor example_host (event_seat_id ?p)) = None"
    by simp
  have in_snapshot: "event_seat_id ?p \<in> seat_id ` set [seat_A, seat_B] \<and>
      Date_parse example_host (event_at ?p) = Some 1767225600000"
    by (simp add: payload_A_def seat_A_def example_host_def)
  obtain state1 where run: "seatReducer example_state (onUpdate example_host ''me'' ?p) = Inr state1"
    by (simp add: onUpdate_def seat_update_patch_def payload_A_def Let_def seatIdToFloor_def
        example_host_def example_state_def)
  have one: "seatReducer Map.empty (onUpdate example_host ''me'' ?p) = Inr Map.empty"
    using snapshot_and_live_updates [of Map.empty example_host ?p "''me''" "[]"] unloaded
    by blast
  have two: "seatReducer state1 (SET_SEATS 1 [seat_A, seat_B]) =
      seatReducer example_state (SET_SEATS 1 [seat_A, seat_B])"
    using snapshot_and_live_updates [of example_state example_host ?p "''me''" "[seat_A, seat_B]"]
      run unfolding fl by blast
  have fl': "seatIdToFloor example_host ''1-1-A'' = 1"
    by (simp add: seatIdToFloor_def example_host_def)
  have et: "event_to ?p = SOLD"
    by (simp add: payload_A_def)
  have "map_option status
     (seat_in (dispatch_all Map.empty
                 [SET_SEATS (seatIdToFloor example_host (event_seat_id ?p)) [seat_A, seat_B],
                  onUpdate example_host ''me'' ?p])
        (seatIdToFloor example_host (event_seat_id ?p)) (event_seat_id ?p)) = Some (event_to ?p)"
    using snapshot_and_live_updates [of Map.empty example_host ?p "''me''" "[seat_A, seat_B]"]
      in_snapshot by blast
  then have three: "map_option status
     (seat_in (dispatch_all Map.empty [SET_SEATS 1 [seat_A, seat_B], onUpdate example_host ''me'' ?p])
        1 ''1-1-A'') = Some SOLD"
    by (simp only: sid fl' et)
  from one run two three show ?thesis by blast
qed

section \<open>The admin token\<close>

lemma admin_headers:
  "headers (adminUpdateSeat sid pl adminToken) ''X-Admin-Token'' = Some adminToken \<and>
   headers (adminBulkUpdateSeats seatIds pl adminToken) ''X-Admin-Token'' = Some adminToken"
  by (simp add: adminUpdateSeat_def adminBulkUpdateSeats_def request_def)

lemma admin_body_keys:
  "(\<exists>props. body (adminUpdateSeat sid pl adminToken) = Some (JObject props) \<and>
      fst ` set props \<subseteq> {''status'', ''tier'', ''price''}) \<and>
   (\<exists>props. body (adminBulkUpdateSeats seatIds pl adminToken) = Some (JObject props) \<and>
      fst ` set props \<subseteq> {''seat_ids'', ''status'', ''tier'', ''price''})"
  by (auto simp add: adminUpdateSeat_def adminBulkUpdateSeats_def request_def JSON_stringify_def
      split: option.splits)

lemma admin_body_token_free:
  "body (adminUpdateSeat sid pl adminToken) = body (adminUpdateSeat sid pl other) \<and>
   body (adminBulkUpdateSeats seatIds pl adminToken) = body (adminBulkUpdateSeats seatIds pl other)"
  by (simp add: adminUpdateSeat_def adminBulkUpdateSeats_def request_def)

lemma handleAdminBulkUpdate_requests:
  assumes "adminToken \<noteq> []"
  shows "\<exists>refetches.
      fst (handleAdminBulkUpdate h adminToken seatIds pl bulkResult fetchResult seatState) =
        adminBulkUpdateSeats seatIds pl adminToken # refetches \<and>
      set refetches \<subseteq> range (fetchSeats h)"
  using assms
  by (auto simp add: handleAdminBulkUpdate_def Let_def split: sum.splits)

text \<open>
  Claim C5. An admin single update and an admin bulk update send the token in the
  \<^verbatim>\<open>X-Admin-Token\<close> header; the JSON body has only the payload's fields (and the seat ids
  of a bulk update) and is the same whatever the token. The admin request is the first
  thing each handler sends (a bulk update may follow it with refetches of floors). With
  no token set, both handlers throw \<open>AdminTokenMissing\<close> and send nothing: the failure
  is an error, not a response of the \<open>updated\<close>/\<open>missing\<close> shape, and it is not the
  error of a failed request either.
\<close>

theorem admin_token_out_of_band:
  assumes "adminToken \<noteq> []"
  shows "fst (handleAdminUpdate h adminToken sid pl updateResult state) =
      [adminUpdateSeat sid pl adminToken] \<and>
    (\<exists>refetches.
       fst (handleAdminBulkUpdate h adminToken seatIds pl bulkResult fetchResult seatState) =
         adminBulkUpdateSeats seatIds pl adminToken # refetches \<and>
       set refetches \<subseteq> range (fetchSeats h)) \<and>
    headers (adminUpdateSeat sid pl adminToken) ''X-Admin-Token'' = Some adminToken \<and>
    headers (adminBulkUpdateSeats seatIds pl adminToken) ''X-Admin-Token'' = Some adminToken \<and>
    (\<exists>props. body (adminUpdateSeat sid pl adminToken) = Some (JObject props) \<and>
       fst ` set props \<subseteq> {''status'', ''tier'', ''price''}) \<and>
    (\<exists>props. body (adminBulkUpdateSeats seatIds pl adminToken) = Some (JObject props) \<and>
       fst ` set props \<subseteq> {''seat_ids'', ''status'', ''tier'', ''price''}) \<and>
    body (adminUpdateSeat sid pl adminToken) = body (adminUpdateSeat sid pl other) \<and>
    body (adminBulkUpdateSeats seatIds pl adminToken) =
      body (adminBulkUpdateSeats seatIds pl other) \<and>
    handleAdminUpdate h [] sid pl updateResult state = ([], Inl AdminTokenMissing, Inr state) \<and>
    handleAdminBulkUpdate h [] seatIds pl bulkResult fetchResult seatState =
      ([], Inl AdminTokenMissing, [], []) \<and>
    AdminTokenMissing \<noteq> RequestFailed text"
proof -
  from assms have one: "fst (handleAdminUpdate h adminToken sid pl updateResult state) =
      [adminUpdateSeat sid pl adminToken]"
    by (simp add: handleAdminUpdate_def split: sum.splits)
  have missing_token: "handleAdminUpdate h [] sid pl updateResult state =
      ([], Inl AdminTokenMissing, Inr state) \<and>
    handleAdminBulkUpdate h [] seatIds pl bulkResult fetchResult seatState =
      ([], Inl AdminTokenMissing, [], [])"
    by (simp add: handleAdminUpdate_def handleAdminBulkUpdate_def)
  show ?thesis
    using one handleAdminBulkUpdate_requests [OF assms] admin_headers admin_body_keys
      admin_body_token_free missing_token
    by simp
qed

theorem admin_token_out_of_band_witness:
  "''secret'' \<noteq> [] \<and>
   fst (handleAdminUpdate example_host ''secret'' ''1-1-A''
          \<lparr>payload_status = Some SOLD, payload_tier = None, payload_price = None\<rparr>
          (Inl ''503'') example_state) =
     [adminUpdateSeat ''1-1-A''
        \<lparr>payload_status = Some SOLD, payload_tier = None, payload_price = None\<rparr> ''secret''] \<and>
   headers (adminUpdateSeat ''1-1-A''
        \<lparr>payload_status = Some SOLD, payload_tier = None, payload_price = None\<rparr> ''secret'')
     ''X-Admin-Token'' = Some ''secret'' \<and>
   body (adminUpdateSeat ''1-1-A''
        \<lparr>payload_status = Some SOLD, payload_tier = None, payload_price = None\<rparr> ''secret'') =
     Some (JObject [(''status'', JString ''SOLD'')])"
proof -
  have tok: "''secret'' \<noteq> []"
    by simp
  note t = admin_token_out_of_band [OF tok, where h = example_host and sid = "''1-1-A''"
      and pl = "\<lparr>payload_status = Some SOLD, payload_tier = None, payload_price = None\<rparr>"
      and updateResult = "Inl ''503''" and state = example_state]
  have b: "body (adminUpdateSeat ''1-1-A''
        \<lparr>payload_status = Some SOLD, payload_tier = None, payload_price = None\<rparr> ''secret'') =
     Some (JObject [(''status'', JString ''SOLD'')])"
    by (simp add: adminUpdateSeat_def request_def JSON_stringify_def status_json_def)
  from t tok b show ?thesis
    by blast
qed

section \<open>The request id of a confirmation\<close>

lemma digit_char_inj:
  assumes "a < 10" and "b < 10" and "''0123456789'' ! a = ''0123456789'' ! b"
  shows "a = b"
proof -
  have "distinct ''0123456789''" by simp
  moreover have "a < length ''0123456789''" and "b < length ''0123456789''"
    using assms by simp_all
  ultimately show ?thesis
    using assms(3) by (simp only: nth_eq_iff_index_eq)
qed

lemma print_nat_nonempty: "print_nat n \<noteq> []"
  by (subst print_nat.simps) simp

lemma print_nat_digits: "set (print_nat n) \<subseteq> set ''0123456789''"
proof (induction n rule: print_nat.induct)
  case (1 n)
  have d: "\<And>k. k < 10 \<Longrightarrow> ''0123456789'' ! k \<in> set ''0123456789''"
    by (rule nth_mem) simp
  show ?case
  proof (cases "n < 10")
    case True
    then show ?thesis
      using d [of n] by (subst print_nat.simps) simp
  next
    case False
    have "n mod 10 < 10" by simp
    with False "1.IH" show ?thesis
      using d [of "n mod 10"] by (subst print_nat.simps) simp
  qed
qed

lemma print_nat_inj: "print_nat n = print_nat m \<Longrightarrow> n = m"
proof (induction n arbitrary: m rule: print_nat.induct)
  case (1 n)
  show ?case
  proof (cases "n < 10")
    case n_small: True
    show ?thesis
    proof (cases "m < 10")
      case True
      with n_small "1.prems" show ?thesis
        by (simp add: print_nat.simps [of n] print_nat.simps [of m] digit_char_inj)
    next
      case False
      with n_small "1.prems" print_nat_nonempty [of "m div 10"] show ?thesis
        by (simp add: print_nat.simps [of n] print_nat.simps [of m])
    qed
  next
    case n_big: False
    show ?thesis
    proof (cases "m < 10")
      case True
      with n_big "1.prems" print_nat_nonempty [of "n div 10"] show ?thesis
        by (simp add: print_nat.simps [of n] print_nat.simps [of m])
    next
      case False
      with n_big "1.prems" have
        eq: "print_nat (n div 10) = print_nat (m div 10)"
        and dg: "''0123456789'' ! (n mod 10) = ''0123456789'' ! (m mod 10)"
        by (simp_all add: print_nat.simps [of n] print_nat.simps [of m])
      from "1.IH" [OF n_big eq] have q: "n div 10 = m div 10" .
      have "n mod 10 = m mod 10"
        by (rule digit_char_inj [OF _ _ dg]) simp_all
      with q show ?thesis
        by (metis div_mult_mod_eq)
    qed
  qed
qed

lemma print_int_inj: "print_int i = print_int j \<Longrightarrow> i = j"
proof -
  assume eq: "print_int i = print_int j"
  have no_minus: "\<And>n. CHR ''-'' \<notin> set (print_nat n)"
    using print_nat_digits by fastforce
  show ?thesis
  proof (cases "i < 0")
    case i_neg: True
    show ?thesis
    proof (cases "j < 0")
      case True
      with i_neg eq have "print_nat (nat (- i)) = print_nat (nat (- j))"
        by (simp add: print_int_def)
      then have "nat (- i) = nat (- j)" by (rule print_nat_inj)
      with i_neg True show ?thesis by simp
    next
      case False
      with i_neg eq have "CHR ''-'' # print_nat (nat (- i)) = print_nat (nat j)"
        by (simp add: print_int_def)
      then have "CHR ''-'' \<in> set (print_nat (nat j))"
        by (metis list.set_intros(1))
      with no_minus show ?thesis by blast
    qed
  next
    case i_pos: False
    show ?thesis
    proof (cases "j < 0")
      case True
      with i_pos eq have "print_nat (nat i) = CHR ''-'' # print_nat (nat (- j))"
        by (simp add: print_int_def)
      then have "CHR ''-'' \<in> set (print_nat (nat i))"
        by (metis list.set_intros(1))
      with no_minus show ?thesis by blast
    next
      case False
      with i_pos eq have "print_nat (nat i) = print_nat (nat j)"
        by (simp add: print_int_def)
      then have "nat i = nat j" by (rule print_nat_inj)
      with i_pos False show ?thesis by simp
    qed
  qed
qed

lemma confirm_requestId_inj:
  "confirm_requestId h clientId = confirm_requestId h' clientId \<Longrightarrow> Date_now h = Date_now h'"
  by (simp add: confirm_requestId_def print_int_inj)

lemma confirmSeats_body:
  "body (confirmSeats seatIds clientId requestId) =
     Some (JObject [(''seat_ids'', JArray (map JString seatIds)),
                    (''client_id'', JString clientId),
                    (''request_id'', JString requestId)])"
  by (simp add: confirmSeats_def request_def JSON_stringify_def)

text \<open>
  Claim C8. An invocation of \<^verbatim>\<open>handleConfirm\<close> that sends a request (the client is not
  in admin mode and holds a seat of the floor on display) sends exactly one, whatever the
  outcome, and its \<open>request_id\<close> is the client id, a dash and the clock in milliseconds
  printed in decimal. Two invocations at different milliseconds carry different request
  ids, so neither request repeats the other; a failed confirmation is not sent again by
  the handler.
\<close>

theorem confirm_request_id:
  assumes "\<not> adminEnabled" and "heldBySelf clientId seats_list \<noteq> []"
  shows "fst (handleConfirm h clientId adminEnabled seats_list confirmResult state) =
      [confirmSeats (map seat_id (heldBySelf clientId seats_list)) clientId
         (clientId @ ''-'' @ print_int (Date_now h))] \<and>
    body (confirmSeats (map seat_id (heldBySelf clientId seats_list)) clientId
            (clientId @ ''-'' @ print_int (Date_now h))) =
      Some (JObject [(''seat_ids'', JArray (map JString (map seat_id (heldBySelf clientId seats_list)))),
                     (''client_id'', JString clientId),
                     (''request_id'', JString (clientId @ ''-'' @ print_int (Date_now h)))]) \<and>
    (Date_now h' \<noteq> Date_now h \<longrightarrow>
       clientId @ ''-'' @ print_int (Date_now h') \<noteq> clientId @ ''-'' @ print_int (Date_now h) \<and>
       fst (handleConfirm h' clientId adminEnabled seats_list confirmResult' state') \<noteq>
       fst (handleConfirm h clientId adminEnabled seats_list confirmResult state))"
proof (intro conjI impI)
  from assms show sent:
    "fst (handleConfirm h clientId adminEnabled seats_list confirmResult state) =
      [confirmSeats (map seat_id (heldBySelf clientId seats_list)) clientId
         (clientId @ ''-'' @ print_int (Date_now h))]"
    by (simp add: handleConfirm_def Let_def confirm_requestId_def)
  show "body (confirmSeats (map seat_id (heldBySelf clientId seats_list)) clientId
            (clientId @ ''-'' @ print_int (Date_now h))) =
      Some (JObject [(''seat_ids'', JArray (map JString (map seat_id (heldBySelf clientId seats_list)))),
                     (''client_id'', JString clientId),
                     (''request_id'', JString (clientId @ ''-'' @ print_int (Date_now h)))])"
    by (rule confirmSeats_body)
  assume differ: "Date_now h' \<noteq> Date_now h"
  then show ids: "clientId @ ''-'' @ print_int (Date_now h') \<noteq>
      clientId @ ''-'' @ print_int (Date_now h)"
    using print_int_inj [of "Date_now h'" "Date_now h"] by auto
  from assms have sent': "fst (handleConfirm h' clientId adminEnabled seats_list confirmResult' state') =
      [confirmSeats (map seat_id (heldBySelf clientId seats_list)) clientId
         (clientId @ ''-'' @ print_int (Date_now h'))]"
    by (simp add: handleConfirm_def Let_def confirm_requestId_def)
  have "body (confirmSeats (map seat_id (heldBySelf clientId seats_list)) clientId
            (clientId @ ''-'' @ print_int (Date_now h'))) \<noteq>
        body (confirmSeats (map seat_id (heldBySelf clientId seats_list)) clientId
            (clientId @ ''-'' @ print_int (Date_now h)))"
    using ids by (simp add: confirmSeats_body)
  then show "fst (handleConfirm h' clientId adminEnabled seats_list confirmResult' state') \<noteq>
       fst (handleConfirm h clientId adminEnabled seats_list confirmResult state)"
    unfolding sent sent' by auto
qed

theorem confirm_request_id_witness:
  "heldBySelf ''me'' [seat_A_held, seat_B] \<noteq> [] \<and>
   fst (handleConfirm example_host ''me'' False [seat_A_held, seat_B] (Inl ''503'')
          example_state_held) =
     [confirmSeats [''1-1-A''] ''me'' ''me-1767225600000''] \<and>
   ''me-1767225600001'' \<noteq> ''me-1767225600000''"
proof -
  have held_self: "heldBySelf ''me'' [seat_A_held, seat_B] \<noteq> []"
    by (simp add: heldBySelf_def seat_A_held_def seat_A_def)
  have ids: "map seat_id (heldBySelf ''me'' [seat_A_held, seat_B]) = [''1-1-A'']"
    by (simp add: heldBySelf_def seat_A_held_def seat_A_def seat_B_def)
  have now: "print_int (Date_now example_host) = ''1767225600000''"
    by (simp add: example_host_def print_int_def print_nat.simps)
  have later: "print_int (Date_now (example_host\<lparr>Date_now := 1767225600001\<rparr>)) = ''1767225600001''"
    by (simp add: print_int_def print_nat.simps)
  have differ: "Date_now (example_host\<lparr>Date_now := 1767225600001\<rparr>) \<noteq> Date_now example_host"
    by (simp add: example_host_def)
  have na: "\<not> False"
    by simp
  note t = confirm_request_id [OF na held_self, of example_host "Inl ''503''" example_state_held
      "example_host\<lparr>Date_now := 1767225600001\<rparr>" "Inl ''503''" example_state_held]
  from t differ have "''me'' @ ''-'' @ print_int (Date_now (example_host\<lparr>Date_now := 1767225600001\<rparr>))
      \<noteq> ''me'' @ ''-'' @ print_int (Date_now example_host)"
    by blast
  then have "''me-1767225600001'' \<noteq> ''me-1767225600000''"
    unfolding now later by simp
  moreover from t have "fst (handleConfirm example_host ''me'' False [seat_A_held, seat_B]
      (Inl ''503'') example_state_held) = [confirmSeats [''1-1-A''] ''me'' ''me-1767225600000'']"
    unfolding now ids by simp
  ultimately show ?thesis
    using held_self by blast
qed

section \<open>Which seats a hold request names\<close>

lemma handleSeatClick_requests:
  "fst (handleSeatClick h clientId adminEnabled holding seat releaseResult holdResult state) =
     (if \<not> adminEnabled \<and> \<not> holding \<and> status seat = AVAILABLE
      then [holdSeats [seat_id seat] clientId]
      else if \<not> adminEnabled \<and> \<not> holding \<and> status seat = HOLD \<and>
              (case hold seat of Some info \<Rightarrow> client_id info = clientId | None \<Rightarrow> False)
      then [releaseSeats (Some [seat_id seat]) clientId]
      else [])"
  by (cases "status seat") (simp_all add: handleSeatClick_def)

lemma positioned_item:
  assumes "item \<in> set (positioned filters seats_list)"
  shows "pos_seat item \<in> set seats_list \<and>
    isVisible item =
      ((case tier (pos_seat item) of Some t \<Rightarrow> t | None \<Rightarrow> ''UNKNOWN'') \<in> tiers filters \<and>
       status (pos_seat item) \<in> statuses filters)"
proof (cases "seats_list = []")
  case True
  with assms show ?thesis by (simp add: positioned_def)
next
  case False
  with assms show ?thesis
    by (simp add: positioned_def Let_def) (elim imageE, simp)
qed

lemma handleUp_selected:
  assumes "handleUp adminEnabled filters seats_list start current = Some ids"
  shows "\<not> adminEnabled \<and> ids \<noteq> [] \<and>
    (\<forall>sid\<in>set ids. \<exists>seat\<in>set seats_list.
        seat_id seat = sid \<and> status seat = AVAILABLE \<and> status seat \<in> statuses filters \<and>
        (case tier seat of Some t \<Rightarrow> t | None \<Rightarrow> ''UNKNOWN'') \<in> tiers filters)"
proof (intro conjI ballI)
  from assms show na: "\<not> adminEnabled"
    by (auto simp add: handleUp_def)
  from assms na show "ids \<noteq> []"
    by (auto simp add: handleUp_def Let_def split: if_splits)
  fix sid
  assume sid: "sid \<in> set ids"
  from assms na have "set ids \<subseteq> (\<lambda>item. seat_id (pos_seat item)) `
      {item \<in> set (positioned filters seats_list).
         isVisible item \<and> status (pos_seat item) = AVAILABLE}"
    by (auto simp add: handleUp_def Let_def split: if_splits)
  with sid obtain item where item: "item \<in> set (positioned filters seats_list)"
    and vis: "isVisible item" and av: "status (pos_seat item) = AVAILABLE"
    and id: "seat_id (pos_seat item) = sid"
    by blast
  from positioned_item [OF item] vis av id
  show "\<exists>seat\<in>set seats_list.
        seat_id seat = sid \<and> status seat = AVAILABLE \<and> status seat \<in> statuses filters \<and>
        (case tier seat of Some t \<Rightarrow> t | None \<Rightarrow> ''UNKNOWN'') \<in> tiers filters"
    by (intro bexI [of _ "pos_seat item"]) auto
qed

text \<open>
  Claim C9. A click on a seat sends a hold request only when the seat's status in client
  state is \<open>AVAILABLE\<close> (and the client is neither in admin mode nor waiting for a hold),
  and then for that seat alone; for a seat the client holds it sends a release instead;
  for any other seat, \<open>SOLD\<close> and \<open>BLOCKED\<close> among them, it sends nothing. A box
  selection passes to \<^verbatim>\<open>onBoxSelect\<close> only ids of visible seats whose status is
  \<open>AVAILABLE\<close>, and \<^verbatim>\<open>handleBoxSelect\<close> sends one hold request for exactly those ids.
\<close>

theorem hold_requests_target_available:
  "fst (handleSeatClick h clientId adminEnabled holding seat releaseResult holdResult state) =
     (if \<not> adminEnabled \<and> \<not> holding \<and> status seat = AVAILABLE
      then [holdSeats [seat_id seat] clientId]
      else if \<not> adminEnabled \<and> \<not> holding \<and> status seat = HOLD \<and>
              (case hold seat of Some info \<Rightarrow> client_id info = clientId | None \<Rightarrow> False)
      then [releaseSeats (Some [seat_id seat]) clientId]
      else []) \<and>
   (\<forall>r\<in>set (fst (handleSeatClick h clientId adminEnabled holding seat releaseResult holdResult
                    state)).
      path r = ''/api/hold'' \<longrightarrow> status seat = AVAILABLE \<and> r = holdSeats [seat_id seat] clientId) \<and>
   (status seat = SOLD \<or> status seat = BLOCKED \<longrightarrow>
      fst (handleSeatClick h clientId adminEnabled holding seat releaseResult holdResult state) = []) \<and>
   (\<forall>ids. handleUp adminEnabled filters seats_list start current = Some ids \<longrightarrow>
      (\<forall>sid\<in>set ids. \<exists>seat\<in>set seats_list.
          seat_id seat = sid \<and> status seat = AVAILABLE \<and> status seat \<in> statuses filters \<and>
          (case tier seat of Some t \<Rightarrow> t | None \<Rightarrow> ''UNKNOWN'') \<in> tiers filters) \<and>
      fst (handleBoxSelect h clientId adminEnabled ids boxResult state) = [holdSeats ids clientId])"
proof (intro conjI allI impI ballI)
  show req: "fst (handleSeatClick h clientId adminEnabled holding seat releaseResult holdResult state) =
     (if \<not> adminEnabled \<and> \<not> holding \<and> status seat = AVAILABLE
      then [holdSeats [seat_id seat] clientId]
      else if \<not> adminEnabled \<and> \<not> holding \<and> status seat = HOLD \<and>
              (case hold seat of Some info \<Rightarrow> client_id info = clientId | None \<Rightarrow> False)
      then [releaseSeats (Some [seat_id seat]) clientId]
      else [])"
    by (rule handleSeatClick_requests)
  {
    fix r
    assume r: "r \<in> set (fst (handleSeatClick h clientId adminEnabled holding seat releaseResult
        holdResult state))"
      and p: "path r = ''/api/hold''"
    from r p show "status seat = AVAILABLE"
      unfolding req by (auto simp add: releaseSeats_def request_def split: if_splits)
    from r p show "r = holdSeats [seat_id seat] clientId"
      unfolding req by (auto simp add: releaseSeats_def request_def split: if_splits)
  }
  {
    assume "status seat = SOLD \<or> status seat = BLOCKED"
    then show "fst (handleSeatClick h clientId adminEnabled holding seat releaseResult holdResult
        state) = []"
      unfolding req by auto
  }
  {
    fix ids
    assume up: "handleUp adminEnabled filters seats_list start current = Some ids"
    {
      fix sid
      assume "sid \<in> set ids"
      with handleUp_selected [OF up]
      show "\<exists>seat\<in>set seats_list.
          seat_id seat = sid \<and> status seat = AVAILABLE \<and> status seat \<in> statuses filters \<and>
          (case tier seat of Some t \<Rightarrow> t | None \<Rightarrow> ''UNKNOWN'') \<in> tiers filters"
        by blast
    }
    from handleUp_selected [OF up]
    show "fst (handleBoxSelect h clientId adminEnabled ids boxResult state) = [holdSeats ids clientId]"
      by (simp add: handleBoxSelect_def)
  }
qed

theorem hold_requests_target_available_witness:
  "handleUp False \<lparr>tiers = {''VIP'', ''UNKNOWN''}, statuses = {AVAILABLE, SOLD}\<rparr>
     [seat_A, seat_B\<lparr>status := SOLD\<rparr>] (0, 0) (100, 100) = Some [''1-1-A''] \<and>
   fst (handleBoxSelect example_host ''me'' False [''1-1-A''] (Inl ''503'') example_state) =
     [holdSeats [''1-1-A''] ''me''] \<and>
   fst (handleSeatClick example_host ''me'' False False (seat_B\<lparr>status := SOLD\<rparr>)
          (Inl ''503'') (Inl ''503'') example_state) = [] \<and>
   fst (handleSeatClick example_host ''me'' False False seat_A_held
          (Inl ''503'') (Inl ''503'') example_state_held) = [releaseSeats (Some [''1-1-A'']) ''me'']"
proof -
  let ?filters = "\<lparr>tiers = {''VIP'', ''UNKNOWN''}, statuses = {AVAILABLE, SOLD}\<rparr>"
  let ?sold = "seat_B\<lparr>status := SOLD\<rparr>"
  have up: "handleUp False ?filters [seat_A, ?sold] (0, 0) (100, 100) = Some [''1-1-A'']"
    by (simp add: handleUp_def positioned_def normalizeRect_def Let_def SEAT_SIZE_def GAP_def
        seat_A_def seat_B_def)
  have sold: "status ?sold = SOLD \<or> status ?sold = BLOCKED"
    by simp
  have box: "fst (handleBoxSelect example_host ''me'' False [''1-1-A''] (Inl ''503'') example_state) =
      [holdSeats [''1-1-A''] ''me'']"
    using hold_requests_target_available [of example_host "''me''" False False seat_A "Inl ''503''"
        "Inl ''503''" example_state ?filters "[seat_A, ?sold]" "(0, 0)" "(100, 100)" "Inl ''503''"] up
    by blast
  have none: "fst (handleSeatClick example_host ''me'' False False ?sold
          (Inl ''503'') (Inl ''503'') example_state) = []"
    using hold_requests_target_available [of example_host "''me''" False False ?sold "Inl ''503''"
        "Inl ''503''" example_state ?filters "[]" "(0, 0)" "(0, 0)" "Inl ''503''"] sold
    by blast
  have rel: "fst (handleSeatClick example_host ''me'' False False seat_A_held
          (Inl ''503'') (Inl ''503'') example_state_held) = [releaseSeats (Some [''1-1-A'']) ''me'']"
    using hold_requests_target_available [of example_host "''me''" False False seat_A_held
        "Inl ''503''" "Inl ''503''" example_state_held ?filters "[]" "(0, 0)" "(0, 0)" "Inl ''503''"]
    by (simp add: seat_A_held_def seat_A_def)
  from up box none rel show ?thesis by blast
qed

section \<open>Release\<close>





section \<open>The hold call\<close>







section \<open>The bulk update\<close>

lemma map_of_filter_key:
  "map_of (filter (\<lambda>(k', v). P k') g) k = (if P k then map_of g k else None)"
  by (induction g) auto

lemma find_filter:
  "find P (filter Q xs) = find (\<lambda>x. Q x \<and> P x) xs"
  by (induction xs) auto

lemma find_None_floor:
  "f \<notin> floor_no ` set xs \<Longrightarrow> find (\<lambda>u. floor_no u = f \<and> seat_id u = s) xs = None"
  by (induction xs) auto

lemma floorsToRefresh_set:
  "set (foldl (\<lambda>floors seat. if P (floor_no seat) then set_add (floor_no seat) floors else floors)
          acc xs) =
     set acc \<union> {f \<in> floor_no ` set xs. P f}"
  by (induction xs arbitrary: acc) (auto simp add: set_add_def)

lemma floorsToRefresh_distinct:
  "distinct acc \<Longrightarrow>
   distinct (foldl (\<lambda>floors seat. if P (floor_no seat) then set_add (floor_no seat) floors
                                  else floors) acc xs)"
  by (induction xs arbitrary: acc) (auto simp add: set_add_def)

lemma dispatch_bulk_patches:
  "dispatch_all st
     (map (\<lambda>(seatFloor, items).
             PATCH_SEATS seatFloor
               (map (\<lambda>seat. \<lparr>seatId = seat_id seat, patch = (\<lambda>_. Fresh seat)\<rparr>) items))
        (filter (\<lambda>(seatFloor, items). seatState seatFloor \<noteq> None)
           (group_by floor_no (\<lambda>seat. seat) xs))) =
   Inr (\<lambda>f. if seatState f = None then st f
             else map_option
                    (\<lambda>cur s. case find (\<lambda>u. floor_no u = f \<and> seat_id u = s) (rev xs) of
                                None \<Rightarrow> cur s
                              | Some u \<Rightarrow> Some u)
                    (st f))"
proof -
  let ?mk = "\<lambda>items. map (\<lambda>seat. \<lparr>seatId = seat_id seat, patch = (\<lambda>_. Fresh seat)\<rparr>) items"
  let ?R = "\<lambda>items cur s. case find (\<lambda>u. seat_id u = s) (rev items) of
                             None \<Rightarrow> cur s | Some u \<Rightarrow> Some u"
  let ?g = "filter (\<lambda>(seatFloor, items). seatState seatFloor \<noteq> None)
              (group_by floor_no (\<lambda>seat. seat) xs)"
  let ?patched = "\<lambda>f cur s. case find (\<lambda>u. floor_no u = f \<and> seat_id u = s) (rev xs) of
                                None \<Rightarrow> cur s | Some u \<Rightarrow> Some u"
  have loop: "\<And>cur items. \<exists>c. patch_loop cur (?mk items) (False, cur) = Inr (c, ?R items cur)"
    by (simp add: patch_loop_const)
  have d: "distinct (map fst ?g)"
    by (rule distinct_map_filter) (rule group_by_distinct)
  have skipped: "\<And>f cur. seatState f = None \<Longrightarrow>
      (case map_of ?g f of None \<Rightarrow> cur | Some items \<Rightarrow> ?R items cur) = cur"
    by (simp add: map_of_filter_key [of "\<lambda>k. seatState k \<noteq> None"] del: not_None_eq)
  have patched: "\<And>f cur. seatState f \<noteq> None \<Longrightarrow>
      (case map_of ?g f of None \<Rightarrow> cur | Some items \<Rightarrow> ?R items cur) = ?patched f cur"
  proof -
    fix f cur
    assume "seatState f \<noteq> None"
    then have m: "map_of ?g f = map_of (group_by floor_no (\<lambda>seat. seat) xs) f"
      by (simp add: map_of_filter_key [of "\<lambda>k. seatState k \<noteq> None"] del: not_None_eq)
    show "(case map_of ?g f of None \<Rightarrow> cur | Some items \<Rightarrow> ?R items cur) = ?patched f cur"
    proof (cases "f \<in> floor_no ` set xs")
      case True
      then show ?thesis
        unfolding m map_of_group_by by (simp add: rev_filter find_filter)
    next
      case False
      then have "f \<notin> floor_no ` set (rev xs)" by simp
      then have "\<And>s. find (\<lambda>u. floor_no u = f \<and> seat_id u = s) (rev xs) = None"
        by (rule find_None_floor)
      with False show ?thesis
        unfolding m map_of_group_by by simp
    qed
  qed
  have "\<And>f. map_option (\<lambda>cur. case map_of ?g f of None \<Rightarrow> cur | Some items \<Rightarrow> ?R items cur) (st f) =
      (if seatState f = None then st f else map_option (?patched f) (st f))"
  proof -
    fix f
    show "map_option (\<lambda>cur. case map_of ?g f of None \<Rightarrow> cur | Some items \<Rightarrow> ?R items cur) (st f) =
      (if seatState f = None then st f else map_option (?patched f) (st f))"
    proof (cases "seatState f = None")
      case True
      show ?thesis
        by (cases "st f") (simp_all add: skipped [OF True] True del: not_None_eq)
    next
      case False
      show ?thesis
        by (cases "st f") (simp_all add: patched [OF False] False del: not_None_eq)
    qed
  qed
  then show ?thesis
    unfolding dispatch_groups [of ?mk ?R, OF loop d] by (simp only:)
qed


lemma dispatch_all_append:
  "dispatch_all st (xs @ ys) =
     (case dispatch_all st xs of Inl e \<Rightarrow> Inl e | Inr st1 \<Rightarrow> dispatch_all st1 ys)"
  by (induction xs arbitrary: st) (auto split: sum.splits)

lemma refresh_actions_set:
  "(a \<in> set (refresh_actions fetchResult floors)) =
     (\<exists>f r. f \<in> set floors \<and> fetchResult f = Inr r \<and> a = SET_SEATS f (seats r))"
proof (induction floors)
  case Nil
  show ?case by (simp add: refresh_actions_def)
next
  case (Cons g floors)
  have step: "refresh_actions fetchResult (g # floors) =
      (case fetchResult g of Inl text \<Rightarrow> [] | Inr r \<Rightarrow> [SET_SEATS g (seats r)]) @
      refresh_actions fetchResult floors"
    by (simp add: refresh_actions_def)
  show ?case
    unfolding step by (cases "fetchResult g") (auto simp add: Cons.IH)
qed

lemma fetchSeats_request:
  "path (fetchSeats h f) = ''/api/seats?floor='' @ String_js h f \<and>
   http_method (fetchSeats h f) = None \<and> body (fetchSeats h f) = None"
  by (simp add: fetchSeats_def request_def)

lemma handleAdminBulkUpdate_outcome:
  assumes "adminToken \<noteq> []"
  shows "handleAdminBulkUpdate h adminToken seatIds pl (Inr response) fetchResult seatState =
    (adminBulkUpdateSeats seatIds pl adminToken #
       map (fetchSeats h)
         (foldl (\<lambda>floors seat. if seatState (floor_no seat) = None
                                then set_add (floor_no seat) floors else floors)
            [] (updated response)),
     Inr response,
     map (\<lambda>(seatFloor, items).
            PATCH_SEATS seatFloor
              (map (\<lambda>seat. \<lparr>seatId = seat_id seat, patch = (\<lambda>_. Fresh seat)\<rparr>) items))
       (filter (\<lambda>(seatFloor, items). seatState seatFloor \<noteq> None)
          (group_by floor_no (\<lambda>seat. seat) (updated response))),
     refresh_actions fetchResult
       (foldl (\<lambda>floors seat. if seatState (floor_no seat) = None
                              then set_add (floor_no seat) floors else floors)
          [] (updated response)))"
proof (cases "updated response = []")
  case True
  with assms show ?thesis
    by (simp add: handleAdminBulkUpdate_def group_by_def refresh_actions_def)
next
  case False
  with assms show ?thesis
    by (simp add: handleAdminBulkUpdate_def Let_def del: not_None_eq)
qed

text \<open>
  Claim C6, as stated, fails. The handler tells the loaded floors from the seat state of
  the render that created it, which it still reads after the \<^verbatim>\<open>await\<close>. Here that
  state has floor 1 only; while the bulk request is under way the catalog loads floor 2
  (the user changes floor), with seat \<open>2-1-A\<close> \<open>AVAILABLE\<close>. The response then lists
  seat \<open>2-1-A\<close>, now \<open>SOLD\<close>, in \<open>updated\<close>. The handler takes floor 2 for not loaded:
  it dispatches no patch and refetches the floor, and the refetch fails. Floor 2 is loaded
  in the client's catalog state and its seat of \<open>updated\<close> is not replaced. (Had the
  handler been created with floor 2 loaded, the seat would be \<open>SOLD\<close>.)
\<close>

theorem bulk_update_loaded_floor_counterexample:
  "seat_in (Inr example_state_upper) 2 ''2-1-A'' = Some seat_C \<and>
   example_state 2 = None \<and>
   handleAdminBulkUpdate example_host ''secret'' [''2-1-A'']
     \<lparr>payload_status = Some SOLD, payload_tier = None, payload_price = None\<rparr>
     (Inr \<lparr>updated = [seat_C\<lparr>status := SOLD\<rparr>], missing = []\<rparr>)
     (\<lambda>f. Inl ''503'') example_state =
     ([adminBulkUpdateSeats [''2-1-A'']
         \<lparr>payload_status = Some SOLD, payload_tier = None, payload_price = None\<rparr> ''secret'',
       fetchSeats example_host 2],
      Inr \<lparr>updated = [seat_C\<lparr>status := SOLD\<rparr>], missing = []\<rparr>, [], []) \<and>
   map_option status
     (seat_in (dispatch_all example_state_upper
                 (bulk_dispatches
                    (handleAdminBulkUpdate example_host ''secret'' [''2-1-A'']
                       \<lparr>payload_status = Some SOLD, payload_tier = None, payload_price = None\<rparr>
                       (Inr \<lparr>updated = [seat_C\<lparr>status := SOLD\<rparr>], missing = []\<rparr>)
                       (\<lambda>f. Inl ''503'') example_state)))
        2 ''2-1-A'') = Some AVAILABLE \<and>
   map_option status
     (seat_in (dispatch_all example_state_upper
                 (bulk_dispatches
                    (handleAdminBulkUpdate example_host ''secret'' [''2-1-A'']
                       \<lparr>payload_status = Some SOLD, payload_tier = None, payload_price = None\<rparr>
                       (Inr \<lparr>updated = [seat_C\<lparr>status := SOLD\<rparr>], missing = []\<rparr>)
                       (\<lambda>f. Inl ''503'') example_state_upper)))
        2 ''2-1-A'') = Some SOLD"
  by (simp add: handleAdminBulkUpdate_def bulk_dispatches_def refresh_actions_def Let_def
      group_by_def set_add_def seat_in_def example_state_def example_state_upper_def
      seat_A_def seat_B_def seat_C_def seat_B7_def)

text \<open>
  Claim C6, amended. For every bulk update response, the handler patches the floors that
  were loaded in the seat state it captured (\<open>seatState\<close>, that of the render that
  created it): on such a floor the seats of \<open>updated\<close> stand in the catalog under their
  floor and id (the last one, should two share both) and every other seat is as it was.
  A floor that was not loaded in the captured state is not patched, whether the catalog
  has loaded it since or not; for each such floor that \<open>updated\<close> names the handler sends
  one \<^verbatim>\<open>GET /api/seats?floor=\<close> request and, when it succeeds, installs what it returned
  by \<^verbatim>\<open>SET_SEATS\<close> as the whole map of that floor. The list \<open>missing\<close> changes neither
  the requests nor what is dispatched.
\<close>

theorem bulk_update_frame:
  assumes "adminToken \<noteq> []"
  shows "\<exists>floors patches.
    handleAdminBulkUpdate h adminToken seatIds pl (Inr response) fetchResult seatState =
      (adminBulkUpdateSeats seatIds pl adminToken # map (fetchSeats h) floors, Inr response,
       patches, refresh_actions fetchResult floors) \<and>
    handleAdminBulkUpdate h adminToken seatIds pl (Inr (response\<lparr>missing := other_missing\<rparr>))
        fetchResult seatState =
      (adminBulkUpdateSeats seatIds pl adminToken # map (fetchSeats h) floors,
       Inr (response\<lparr>missing := other_missing\<rparr>), patches, refresh_actions fetchResult floors) \<and>
    distinct floors \<and>
    set floors = {f \<in> floor_no ` set (updated response). seatState f = None} \<and>
    (\<forall>f. path (fetchSeats h f) = ''/api/seats?floor='' @ String_js h f \<and>
         http_method (fetchSeats h f) = None \<and> body (fetchSeats h f) = None) \<and>
    (\<forall>state. \<exists>state'. dispatch_all state patches = Inr state' \<and>
       (\<forall>f. seatState f = None \<longrightarrow> state' f = state f) \<and>
       (\<forall>f. state f = None \<longrightarrow> state' f = None) \<and>
       (\<forall>f floorMap. seatState f \<noteq> None \<and> state f = Some floorMap \<longrightarrow>
          (\<exists>floorMap'. state' f = Some floorMap' \<and>
             (\<forall>s. floorMap' s =
                (case find (\<lambda>u. floor_no u = f \<and> seat_id u = s) (rev (updated response)) of
                   None \<Rightarrow> floorMap s
                 | Some u \<Rightarrow> Some u))))) \<and>
    (\<forall>a. (a \<in> set (refresh_actions fetchResult floors)) =
         (\<exists>f r. f \<in> set floors \<and> fetchResult f = Inr r \<and> a = SET_SEATS f (seats r))) \<and>
    (\<forall>state f xs. seatReducer state (SET_SEATS f xs) =
         Inr (state(f \<mapsto> foldl (\<lambda>m seat. m(seat_id seat \<mapsto> seat)) Map.empty xs)))"
proof -
  let ?floors = "foldl (\<lambda>floors seat. if seatState (floor_no seat) = None
                                then set_add (floor_no seat) floors else floors)
            [] (updated response)"
  let ?patches = "map (\<lambda>(seatFloor, items).
            PATCH_SEATS seatFloor
              (map (\<lambda>seat. \<lparr>seatId = seat_id seat, patch = (\<lambda>_. Fresh seat)\<rparr>) items))
       (filter (\<lambda>(seatFloor, items). seatState seatFloor \<noteq> None)
          (group_by floor_no (\<lambda>seat. seat) (updated response)))"
  have same_updated: "updated (response\<lparr>missing := other_missing\<rparr>) = updated response"
    by simp
  have out: "handleAdminBulkUpdate h adminToken seatIds pl (Inr response) fetchResult seatState =
      (adminBulkUpdateSeats seatIds pl adminToken # map (fetchSeats h) ?floors, Inr response,
       ?patches, refresh_actions fetchResult ?floors)"
    by (rule handleAdminBulkUpdate_outcome [OF assms])
  have out': "handleAdminBulkUpdate h adminToken seatIds pl
        (Inr (response\<lparr>missing := other_missing\<rparr>)) fetchResult seatState =
      (adminBulkUpdateSeats seatIds pl adminToken # map (fetchSeats h) ?floors,
       Inr (response\<lparr>missing := other_missing\<rparr>), ?patches, refresh_actions fetchResult ?floors)"
    unfolding handleAdminBulkUpdate_outcome [OF assms] same_updated by (rule refl)
  have d: "distinct ?floors"
    by (rule floorsToRefresh_distinct) simp
  have fs: "set ?floors = {f \<in> floor_no ` set (updated response). seatState f = None}"
    using floorsToRefresh_set [of "\<lambda>f. seatState f = None" "[]" "updated response"] by simp
  have patched: "\<And>state. \<exists>state'. dispatch_all state ?patches = Inr state' \<and>
       (\<forall>f. seatState f = None \<longrightarrow> state' f = state f) \<and>
       (\<forall>f. state f = None \<longrightarrow> state' f = None) \<and>
       (\<forall>f floorMap. seatState f \<noteq> None \<and> state f = Some floorMap \<longrightarrow>
          (\<exists>floorMap'. state' f = Some floorMap' \<and>
             (\<forall>s. floorMap' s =
                (case find (\<lambda>u. floor_no u = f \<and> seat_id u = s) (rev (updated response)) of
                   None \<Rightarrow> floorMap s
                 | Some u \<Rightarrow> Some u))))"
    unfolding dispatch_bulk_patches by simp
  have set_seats: "\<And>state f xs. seatReducer state (SET_SEATS f xs) =
         Inr (state(f \<mapsto> foldl (\<lambda>m seat. m(seat_id seat \<mapsto> seat)) Map.empty xs))"
    by simp
  show ?thesis
    apply (rule exI [of _ ?floors])
    apply (rule exI [of _ ?patches])
    apply (intro conjI allI)
    apply (rule out)
    apply (rule out')
    apply (rule d)
    apply (rule fs)
    apply (simp_all only: fetchSeats_request patched refresh_actions_set set_seats)
    done
qed


theorem bulk_update_frame_witness:
  "''secret'' \<noteq> [] \<and>
   fst (handleAdminBulkUpdate example_host ''secret'' [''1-1-A'', ''2-1-A'', ''9-9-Z'']
                    \<lparr>payload_status = Some SOLD, payload_tier = None, payload_price = None\<rparr>
                    (Inr \<lparr>updated = [seat_A\<lparr>status := SOLD\<rparr>, seat_C\<lparr>status := SOLD\<rparr>],
                          missing = [''9-9-Z'']\<rparr>)
                    (\<lambda>f. Inr \<lparr>response_floor = 2, seats = [seat_C\<lparr>status := SOLD\<rparr>],
                               generated_at = ''2026-01-01T00:00:00.000Z''\<rparr>)
                    example_state) =
     [adminBulkUpdateSeats [''1-1-A'', ''2-1-A'', ''9-9-Z'']
        \<lparr>payload_status = Some SOLD, payload_tier = None, payload_price = None\<rparr> ''secret'',
      fetchSeats example_host 2] \<and>
   path (fetchSeats example_host 2) = ''/api/seats?floor=2'' \<and>
   seat_in (dispatch_all example_state (bulk_dispatches (handleAdminBulkUpdate example_host ''secret'' [''1-1-A'', ''2-1-A'', ''9-9-Z'']
                    \<lparr>payload_status = Some SOLD, payload_tier = None, payload_price = None\<rparr>
                    (Inr \<lparr>updated = [seat_A\<lparr>status := SOLD\<rparr>, seat_C\<lparr>status := SOLD\<rparr>],
                          missing = [''9-9-Z'']\<rparr>)
                    (\<lambda>f. Inr \<lparr>response_floor = 2, seats = [seat_C\<lparr>status := SOLD\<rparr>],
                               generated_at = ''2026-01-01T00:00:00.000Z''\<rparr>)
                    example_state))) 1 ''1-1-A'' =
     Some (seat_A\<lparr>status := SOLD\<rparr>) \<and>
   seat_in (dispatch_all example_state (bulk_dispatches (handleAdminBulkUpdate example_host ''secret'' [''1-1-A'', ''2-1-A'', ''9-9-Z'']
                    \<lparr>payload_status = Some SOLD, payload_tier = None, payload_price = None\<rparr>
                    (Inr \<lparr>updated = [seat_A\<lparr>status := SOLD\<rparr>, seat_C\<lparr>status := SOLD\<rparr>],
                          missing = [''9-9-Z'']\<rparr>)
                    (\<lambda>f. Inr \<lparr>response_floor = 2, seats = [seat_C\<lparr>status := SOLD\<rparr>],
                               generated_at = ''2026-01-01T00:00:00.000Z''\<rparr>)
                    example_state))) 1 ''1-1-B'' = Some seat_B \<and>
   seat_in (dispatch_all example_state (bulk_dispatches (handleAdminBulkUpdate example_host ''secret'' [''1-1-A'', ''2-1-A'', ''9-9-Z'']
                    \<lparr>payload_status = Some SOLD, payload_tier = None, payload_price = None\<rparr>
                    (Inr \<lparr>updated = [seat_A\<lparr>status := SOLD\<rparr>, seat_C\<lparr>status := SOLD\<rparr>],
                          missing = [''9-9-Z'']\<rparr>)
                    (\<lambda>f. Inr \<lparr>response_floor = 2, seats = [seat_C\<lparr>status := SOLD\<rparr>],
                               generated_at = ''2026-01-01T00:00:00.000Z''\<rparr>)
                    example_state))) 2 ''2-1-A'' =
     Some (seat_C\<lparr>status := SOLD\<rparr>)"
proof -
  let ?pl = "\<lparr>payload_status = Some SOLD, payload_tier = None, payload_price = None\<rparr>"
  let ?r = "\<lparr>updated = [seat_A\<lparr>status := SOLD\<rparr>, seat_C\<lparr>status := SOLD\<rparr>],
             missing = [''9-9-Z'']\<rparr>"
  let ?fetch = "\<lambda>f::number. (Inr \<lparr>response_floor = 2, seats = [seat_C\<lparr>status := SOLD\<rparr>],
                        generated_at = ''2026-01-01T00:00:00.000Z''\<rparr> :: string + SeatsResponse)"
  let ?out = "handleAdminBulkUpdate example_host ''secret'' [''1-1-A'', ''2-1-A'', ''9-9-Z'']
      ?pl (Inr ?r) ?fetch example_state"
  have tok: "''secret'' \<noteq> []"
    by simp
  from bulk_update_frame [OF tok, where h = example_host
      and seatIds = "[''1-1-A'', ''2-1-A'', ''9-9-Z'']" and pl = ?pl and response = ?r
      and fetchResult = ?fetch and seatState = example_state and other_missing = "[]"]
  obtain floors patches where out: "?out =
        (adminBulkUpdateSeats [''1-1-A'', ''2-1-A'', ''9-9-Z''] ?pl ''secret'' #
           map (fetchSeats example_host) floors, Inr ?r, patches, refresh_actions ?fetch floors)"
    and d: "distinct floors"
    and fs: "set floors = {f \<in> floor_no ` set (updated ?r). example_state f = None}"
    and req: "\<forall>f. path (fetchSeats example_host f) = ''/api/seats?floor='' @ String_js example_host f \<and>
         http_method (fetchSeats example_host f) = None \<and> body (fetchSeats example_host f) = None"
    and patched: "\<forall>state. \<exists>state'. dispatch_all state patches = Inr state' \<and>
       (\<forall>f. example_state f = None \<longrightarrow> state' f = state f) \<and>
       (\<forall>f. state f = None \<longrightarrow> state' f = None) \<and>
       (\<forall>f floorMap. example_state f \<noteq> None \<and> state f = Some floorMap \<longrightarrow>
          (\<exists>floorMap'. state' f = Some floorMap' \<and>
             (\<forall>s. floorMap' s =
                (case find (\<lambda>u. floor_no u = f \<and> seat_id u = s) (rev (updated ?r)) of
                   None \<Rightarrow> floorMap s
                 | Some u \<Rightarrow> Some u))))"
    by (elim exE conjE) (rule that)
  have one: "example_state 1 = Some [''1-1-A'' \<mapsto> seat_A, ''1-1-B'' \<mapsto> seat_B]"
    by (simp add: example_state_def)
  have two: "example_state 2 = None"
    by (simp add: example_state_def)
  have "set floors = {2}"
    unfolding fs by (auto simp add: seat_A_def seat_C_def example_state_def)
  with d have floors: "floors = [2]"
  proof (cases floors)
    case Nil
    with \<open>set floors = {2}\<close> show ?thesis
      by simp
  next
    case (Cons g rest)
    with d \<open>set floors = {2}\<close> have "g = 2" and "set rest \<subseteq> {2}" and "2 \<notin> set rest"
      by auto
    then have "rest = []"
      by (cases rest) auto
    with Cons \<open>g = 2\<close> show ?thesis
      by simp
  qed
  from patched obtain state' where run: "dispatch_all example_state patches = Inr state'"
    and loaded: "\<forall>f floorMap. example_state f \<noteq> None \<and> example_state f = Some floorMap \<longrightarrow>
          (\<exists>floorMap'. state' f = Some floorMap' \<and>
             (\<forall>s. floorMap' s =
                (case find (\<lambda>u. floor_no u = f \<and> seat_id u = s) (rev (updated ?r)) of
                   None \<Rightarrow> floorMap s
                 | Some u \<Rightarrow> Some u)))"
    by blast
  from loaded one obtain floorMap' where f1: "state' 1 = Some floorMap'"
    and f1s: "\<forall>s. floorMap' s =
             (case find (\<lambda>u. floor_no u = 1 \<and> seat_id u = s) (rev (updated ?r)) of
                None \<Rightarrow> [''1-1-A'' \<mapsto> seat_A, ''1-1-B'' \<mapsto> seat_B] s
              | Some u \<Rightarrow> Some u)"
    by blast
  have a: "floorMap' ''1-1-A'' = Some (seat_A\<lparr>status := SOLD\<rparr>)"
    unfolding f1s [rule_format] by (simp add: seat_A_def seat_C_def)
  have b: "floorMap' ''1-1-B'' = Some seat_B"
    unfolding f1s [rule_format] by (simp add: seat_A_def seat_C_def)
  have all: "dispatch_all example_state (bulk_dispatches ?out) =
      Inr (state'(2 \<mapsto> [''2-1-A'' \<mapsto> seat_C\<lparr>status := SOLD\<rparr>]))"
    unfolding out floors bulk_dispatches_def dispatch_all_append
    by (simp add: run refresh_actions_def seat_C_def)
  have sent: "fst ?out = [adminBulkUpdateSeats [''1-1-A'', ''2-1-A'', ''9-9-Z''] ?pl ''secret'',
      fetchSeats example_host 2]"
    unfolding out floors by simp
  have p: "path (fetchSeats example_host 2) = ''/api/seats?floor=2''"
    using req [rule_format, of 2] by (simp add: example_host_def)
  have s1: "seat_in (dispatch_all example_state (bulk_dispatches ?out)) 1 ''1-1-A'' =
      Some (seat_A\<lparr>status := SOLD\<rparr>)"
    unfolding all by (simp add: seat_in_def f1 a)
  have s2: "seat_in (dispatch_all example_state (bulk_dispatches ?out)) 1 ''1-1-B'' = Some seat_B"
    unfolding all by (simp add: seat_in_def f1 b)
  have s3: "seat_in (dispatch_all example_state (bulk_dispatches ?out)) 2 ''2-1-A'' =
      Some (seat_C\<lparr>status := SOLD\<rparr>)"
    unfolding all by (simp add: seat_in_def seat_C_def)
  from tok sent p s1 s2 s3 show ?thesis
    by (intro conjI)
qed

end
